theory Spec2Isabelle
  imports Complex_Main "HOL-Library.Multiset" "HOL-Library.List_Lexorder" "HOL-Library.AList"
begin

section \<open>JavaScript values used by the importer\<close>

text \<open>
  A JavaScript string is a sequence of UTF-16 code units. The header texts of the
  importer are Chinese, so a string is modelled as the list of its code units, each a
  natural number; \<open>u16\<close> embeds an ASCII literal.
\<close>

type_synonym jsstring = "nat list"

definition u16 :: "string \<Rightarrow> jsstring" where
  "u16 s = map of_char s"

text \<open>
  The characters matched by the regular expression class \<open>\s\<close> and stripped by
  \<open>String.prototype.trim\<close>: the WhiteSpace and LineTerminator code points of
  ECMAScript (TAB, LF, VT, FF, CR, SP, NBSP, U+1680, U+2000..U+200A, U+2028, U+2029,
  U+202F, U+205F, U+3000, U+FEFF).
\<close>

definition isWhiteSpace :: "nat \<Rightarrow> bool" where
  "isWhiteSpace c \<longleftrightarrow>
     c = 9 \<or> c = 10 \<or> c = 11 \<or> c = 12 \<or> c = 13 \<or> c = 32 \<or> c = 160 \<or> c = 5760 \<or>
     (8192 \<le> c \<and> c \<le> 8202) \<or> c = 8232 \<or> c = 8233 \<or> c = 8239 \<or> c = 8287 \<or>
     c = 12288 \<or> c = 65279"

definition js_trim :: "jsstring \<Rightarrow> jsstring" where
  "js_trim s = rev (dropWhile isWhiteSpace (rev (dropWhile isWhiteSpace s)))"

text \<open>
  A worksheet cell as \<open>sheet_to_json\<close> delivers it (type \<open>any\<close> in the source):
  a string, a number, a boolean, or nothing. A numeric cell is modelled by an integer and
  printed as plain decimal digits, which is what \<open>String\<close> gives for an integer of
  magnitude below \<open>10^21\<close>; from there on JavaScript prints in exponent notation
  (\<open>String(1e21)\<close> is \<open>1e+21\<close>), and a numeric cell that is not an integer
  (\<open>12.5\<close>) has no value in this type. No statement below depends on the digits
  printed for a number, only on a number never printing as a blank string.
\<close>

datatype cell = Undefined | Null | Str jsstring | Num int | Bool bool

fun digitsOfNat :: "nat \<Rightarrow> jsstring" where
  "digitsOfNat n = (if n < 10 then [48 + n] else digitsOfNat (n div 10) @ [48 + n mod 10])"

declare digitsOfNat.simps [simp del]

text \<open>\<open>String(v ?? "")\<close>: \<open>null\<close> and \<open>undefined\<close> become the empty string.\<close>

fun js_String :: "cell \<Rightarrow> jsstring" where
  "js_String Undefined = []"
| "js_String Null = []"
| "js_String (Str s) = s"
| "js_String (Num n) = (if n < 0 then 45 # digitsOfNat (nat (- n)) else digitsOfNat (nat n))"
| "js_String (Bool b) = (if b then u16 ''true'' else u16 ''false'')"

section \<open>Header normalizer\<close>

text \<open>
  \<open>headerAliases\<close>: canonical field name and its accepted header spellings, in the
  order of the source's object literal. The spellings are given by their code units.
\<close>

definition headerAliases :: "(string \<times> jsstring list) list" where
  "headerAliases =
   [(''branchCode'', [[25818, 40670], [24288, 21029], [26381, 21209, 24288]]),
    (''checkoutNo'', [[32080, 24115, 21934, 34399], [32080, 31639, 21934, 34399]]),
    (''itemId'', [[38917, 30446, 73, 68], [38917, 30446, 73, 100], [38917, 27425]]),
    (''workOrderNo'', [[24037, 21934, 34399], [24037, 20316, 21934, 34399],
                       [24037, 20316, 21934, 34399, 30908]]),
    (''partNo'', [[38646, 20214, 32232, 34399], [26009, 34399]]),
    (''partName'', [[38646, 20214, 21517, 31281], [21697, 21517]]),
    (''qty'', [[37559, 21806, 25976, 37327], [25976, 37327],
               [25976, 37327, 40, 37559, 21806, 41]]),
    (''saleAmount'', [[23526, 38555, 21806, 20729], [37559, 21806, 37329, 38989],
                      [21806, 20729]]),
    (''costAmount'', [[25104, 26412, 32317, 20729], [25104, 26412, 37329, 38989],
                      [25104, 26412]]),
    (''advisorName'', [[25509, 24453, 20154, 21729], [26381, 21209, 39015, 21839],
                       [39015, 21839]]),
    (''salesName'', [[37559, 21806, 20154, 21729], [38646, 20214, 37559, 21806],
                     [37559, 21806]])]"

text \<open>
  \<open>normalizeHeader\<close>: trim, delete every whitespace character
  (\<open>replace(/\s+/g, "")\<close>), and turn the fullwidth colon U+FF1A into \<open>:\<close>.
\<close>

definition normalizeHeader :: "jsstring \<Rightarrow> jsstring" where
  "normalizeHeader s =
     map (\<lambda>c. if c = 65306 then 58 else c) (filter (\<lambda>c. \<not> isWhiteSpace c) (js_trim s))"

text \<open>\<open>Array.prototype.findIndex\<close>: the first index whose element satisfies the predicate, else -1.\<close>

fun findIndexFrom :: "('a \<Rightarrow> bool) \<Rightarrow> 'a list \<Rightarrow> nat \<Rightarrow> int" where
  "findIndexFrom P [] i = - 1"
| "findIndexFrom P (x # xs) i = (if P x then int i else findIndexFrom P xs (Suc i))"

definition findIndex :: "('a \<Rightarrow> bool) \<Rightarrow> 'a list \<Rightarrow> int" where
  "findIndex P xs = findIndexFrom P xs 0"

record headerMap =
  hm_map :: "(string \<times> nat) list"
  hm_unknown :: "jsstring list"
  hm_normHeaders :: "jsstring list"

text \<open>
  \<open>buildHeaderMap\<close>. The object \<open>map\<close> is an association list in insertion order
  (the order of \<open>headerAliases\<close>); each canonical name is inserted at most once.
\<close>

definition buildHeaderMap :: "jsstring list \<Rightarrow> headerMap" where
  "buildHeaderMap headers =
     (let normHeaders = map normalizeHeader headers;
          m = foldl (\<lambda>m (canonical, aliases).
                 let idx = findIndex (\<lambda>h. h \<in> set (map normalizeHeader aliases)) normHeaders
                 in if idx \<ge> 0 then m @ [(canonical, nat idx)] else m)
               [] headerAliases;
          unknown = filter (\<lambda>h.
                 let nh = normalizeHeader h
                 in \<not> (nh \<in> set (map normalizeHeader (concat (map snd headerAliases)))))
               headers
      in \<lparr>hm_map = m, hm_unknown = unknown, hm_normHeaders = normHeaders\<rparr>)"

section \<open>Numeric coercion\<close>

text \<open>
  \<open>Number(s)\<close> on a string, following the StringNumericLiteral grammar of ECMAScript:
  surrounding whitespace is ignored, the empty string is 0, then either a non-decimal
  integer literal (\<open>0x\<close>, \<open>0o\<close>, \<open>0b\<close>) or an optionally signed decimal literal
  (digits, fraction, exponent, or \<open>Infinity\<close>); anything else is \<open>NaN\<close>. Which
  strings give \<open>NaN\<close>, and that the empty string gives 0, are as in JavaScript. A finite
  result carries the exact value of the literal: the rounding to a double
  (\<open>Number("9007199254740993")\<close> is 9007199254740992), the overflow of a large
  literal to \<open>Infinity\<close> (\<open>Number("1e400")\<close>) and the sign of zero are not
  represented.
\<close>

datatype jsnumber = NaN | PosInfinity | NegInfinity | Finite rat

definition isDigit :: "nat \<Rightarrow> bool" where
  "isDigit c \<longleftrightarrow> 48 \<le> c \<and> c \<le> 57"

definition digitVal :: "nat \<Rightarrow> nat" where
  "digitVal c =
     (if 48 \<le> c \<and> c \<le> 57 then c - 48
      else if 97 \<le> c \<and> c \<le> 102 then c - 87
      else if 65 \<le> c \<and> c \<le> 70 then c - 55
      else 36)"

definition digitsValue :: "nat \<Rightarrow> jsstring \<Rightarrow> nat" where
  "digitsValue base ds = foldl (\<lambda>a c. base * a + digitVal c) 0 ds"

definition nonDecimalIntegerLiteral :: "jsstring \<Rightarrow> nat option" where
  "nonDecimalIntegerLiteral s =
     (case s of
        z # p # ds \<Rightarrow>
          (let base = (if p = 120 \<or> p = 88 then 16
                       else if p = 111 \<or> p = 79 then 8
                       else if p = 98 \<or> p = 66 then 2 else (0::nat))
           in if z = 48 \<and> base \<noteq> 0 \<and> ds \<noteq> [] \<and> list_all (\<lambda>c. digitVal c < base) ds
              then Some (digitsValue base ds) else None)
      | _ \<Rightarrow> None)"

text \<open>ExponentPart: absent, or \<open>e\<close>/\<open>E\<close>, an optional sign and at least one digit.\<close>

definition exponentPart :: "jsstring \<Rightarrow> int option" where
  "exponentPart s =
     (case s of
        [] \<Rightarrow> Some 0
      | c # t \<Rightarrow>
          if c = 101 \<or> c = 69 then
            (let neg = (case t of sc # _ \<Rightarrow> sc = 45 | [] \<Rightarrow> False);
                 ds = (case t of sc # t' \<Rightarrow> if sc = 45 \<or> sc = 43 then t' else t | [] \<Rightarrow> [])
             in if ds \<noteq> [] \<and> list_all isDigit ds
                then Some (if neg then - int (digitsValue 10 ds) else int (digitsValue 10 ds))
                else None)
          else None)"

definition scale10 :: "nat \<Rightarrow> int \<Rightarrow> rat" where
  "scale10 m k = (if 0 \<le> k then of_nat m * 10 ^ nat k else of_nat m / 10 ^ nat (- k))"

definition strUnsignedDecimalLiteral :: "jsstring \<Rightarrow> jsnumber" where
  "strUnsignedDecimalLiteral s =
     (if s = u16 ''Infinity'' then PosInfinity
      else
        let ip = takeWhile isDigit s;
            r1 = dropWhile isDigit s;
            dot = (case r1 of c # _ \<Rightarrow> c = 46 | [] \<Rightarrow> False);
            fp = (if dot then takeWhile isDigit (tl r1) else []);
            r2 = (if dot then dropWhile isDigit (tl r1) else r1)
        in if ip = [] \<and> fp = [] then NaN
           else (case exponentPart r2 of
                   None \<Rightarrow> NaN
                 | Some e \<Rightarrow> Finite (scale10 (digitsValue 10 (ip @ fp)) (e - int (length fp)))))"

fun negate :: "jsnumber \<Rightarrow> jsnumber" where
  "negate NaN = NaN"
| "negate PosInfinity = NegInfinity"
| "negate NegInfinity = PosInfinity"
| "negate (Finite q) = Finite (- q)"

definition strDecimalLiteral :: "jsstring \<Rightarrow> jsnumber" where
  "strDecimalLiteral s =
     (case s of
        [] \<Rightarrow> NaN
      | c # t \<Rightarrow>
          if c = 43 then strUnsignedDecimalLiteral t
          else if c = 45 then negate (strUnsignedDecimalLiteral t)
          else strUnsignedDecimalLiteral s)"

definition js_Number :: "jsstring \<Rightarrow> jsnumber" where
  "js_Number str =
     (let s = js_trim str
      in if s = [] then Finite 0
         else (case nonDecimalIntegerLiteral s of
                 Some n \<Rightarrow> Finite (of_nat n)
               | None \<Rightarrow> strDecimalLiteral s))"

section \<open>Validation gate\<close>

text \<open>
  The object produced by a successful \<open>CanonicalRowSchema.safeParse\<close>. An optional key
  that is absent from the input is \<open>None\<close>.
\<close>

record parsedRow =
  d_branchCode :: jsstring
  d_checkoutNo :: jsstring
  d_itemId :: jsstring
  d_partNo :: jsstring
  d_workOrderNo :: "jsstring option"
  d_partName :: "jsstring option"
  d_qty :: "jsnumber option"
  d_saleAmount :: "jsnumber option"
  d_costAmount :: "jsnumber option"
  d_advisorName :: "jsstring option"
  d_salesName :: "jsstring option"

text \<open>
  The three kinds of field schema, applied to the value found under a key (\<open>None\<close> when
  the key is absent); the result is \<open>None\<close> when the field raises an issue. Every value
  of \<open>rawObj\<close> is a string, so \<open>z.string()\<close> never rejects a present value.
  \<open>z.coerce.number()\<close> applies \<open>Number\<close> and rejects \<open>NaN\<close>; \<open>.optional()\<close>
  accepts an absent key without coercing it.
\<close>

definition z_string_min1 :: "jsstring option \<Rightarrow> jsstring option" where
  "z_string_min1 v = (case v of None \<Rightarrow> None | Some s \<Rightarrow> if length s \<ge> 1 then Some s else None)"

definition z_string_optional :: "jsstring option \<Rightarrow> jsstring option option" where
  "z_string_optional v = Some v"

definition z_coerce_number_optional :: "jsstring option \<Rightarrow> jsnumber option option" where
  "z_coerce_number_optional v =
     (case v of
        None \<Rightarrow> Some None
      | Some s \<Rightarrow> (case js_Number s of NaN \<Rightarrow> None | n \<Rightarrow> Some (Some n)))"

text \<open>\<open>CanonicalRowSchema.safeParse\<close>: \<open>Some\<close> the parsed data on success, \<open>None\<close> on failure.\<close>

definition CanonicalRowSchema_safeParse :: "(string \<times> jsstring) list \<Rightarrow> parsedRow option" where
  "CanonicalRowSchema_safeParse rawObj =
     (case (z_string_min1 (map_of rawObj ''branchCode''),
            z_string_min1 (map_of rawObj ''checkoutNo''),
            z_string_min1 (map_of rawObj ''itemId''),
            z_string_min1 (map_of rawObj ''partNo''),
            z_string_optional (map_of rawObj ''workOrderNo''),
            z_string_optional (map_of rawObj ''partName''),
            z_coerce_number_optional (map_of rawObj ''qty''),
            z_coerce_number_optional (map_of rawObj ''saleAmount''),
            z_coerce_number_optional (map_of rawObj ''costAmount''),
            z_string_optional (map_of rawObj ''advisorName''),
            z_string_optional (map_of rawObj ''salesName'')) of
        (Some bc, Some cn, Some ii, Some pn, Some wo, Some pna, Some q, Some sa, Some ca,
         Some an, Some sn) \<Rightarrow>
          Some \<lparr>d_branchCode = bc, d_checkoutNo = cn, d_itemId = ii, d_partNo = pn,
                d_workOrderNo = wo, d_partName = pna, d_qty = q, d_saleAmount = sa,
                d_costAmount = ca, d_advisorName = an, d_salesName = sn\<rparr>
      | _ \<Rightarrow> None)"

section \<open>Persistence layer\<close>

datatype ImportStatus = STAGED | TRANSFORMED

record importBatch =
  ib_id :: nat
  ib_reportType :: string
  ib_mappingVersion :: string
  ib_fileName :: "jsstring option"
  ib_headerSignature :: jsstring
  ib_headerColumns :: "jsstring list"
  ib_unknownColumns :: "jsstring list"
  ib_status :: ImportStatus
  ib_errorCount :: "nat option"
  ib_stagedCount :: "nat option"
  ib_canonicalCount :: "nat option"

record stagingRow =
  sr_batchId :: nat
  sr_rowIndex :: nat
  sr_data :: "(string \<times> jsstring) list"
  sr_unknown :: "(jsstring \<times> cell) list option"

record partsSalesLine =
  psl_batchId :: nat
  psl_branchCode :: jsstring
  psl_checkoutNo :: jsstring
  psl_itemId :: jsstring
  psl_workOrderNo :: "jsstring option"
  psl_workOrderKey :: "jsstring option"
  psl_partNo :: jsstring
  psl_partName :: "jsstring option"
  psl_qty :: "jsnumber option"
  psl_saleAmount :: "jsnumber option"
  psl_costAmount :: "jsnumber option"
  psl_advisorName :: "jsstring option"
  psl_salesName :: "jsstring option"

text \<open>The three tables the importer writes through the \<open>prisma\<close> client.\<close>

record db =
  importBatches :: "importBatch list"
  stagingRows :: "stagingRow list"
  partsSalesLines :: "partsSalesLine list"

text \<open>
  Modelled from the spec: the persistence layer (package \<open>@ops/db\<close>, the Prisma client
  and its schema) is not among the sources. The spec describes it as an append/upsert
  store with four operations: create-batch, create-staging-row,
  upsert-canonical-row-by-business-key and update-batch-status-and-counters. A batch
  receives an identifier that no stored batch has; its counters are unset (\<open>None\<close>)
  until the importer writes them.
\<close>

definition freshId :: "importBatch list \<Rightarrow> nat" where
  "freshId bs = Suc (foldr max (map ib_id bs) 0)"

definition prisma_importBatch_create ::
  "db \<Rightarrow> jsstring option \<Rightarrow> jsstring \<Rightarrow> jsstring list \<Rightarrow> jsstring list \<Rightarrow> db \<times> importBatch" where
  "prisma_importBatch_create d fileName headerSignature headers unknown =
     (let batch = \<lparr>ib_id = freshId (importBatches d), ib_reportType = ''parts_sales'',
                    ib_mappingVersion = ''v1'', ib_fileName = fileName,
                    ib_headerSignature = headerSignature, ib_headerColumns = headers,
                    ib_unknownColumns = unknown, ib_status = STAGED,
                    ib_errorCount = None, ib_stagedCount = None, ib_canonicalCount = None\<rparr>
      in (d\<lparr>importBatches := importBatches d @ [batch]\<rparr>, batch))"

definition prisma_stagingRow_create :: "db \<Rightarrow> stagingRow \<Rightarrow> db" where
  "prisma_stagingRow_create d row = d\<lparr>stagingRows := stagingRows d @ [row]\<rparr>"

definition prisma_importBatch_update ::
  "db \<Rightarrow> nat \<Rightarrow> ImportStatus \<Rightarrow> nat \<Rightarrow> nat \<Rightarrow> nat \<Rightarrow> db" where
  "prisma_importBatch_update d bid status errorCount stagedCount canonicalCount =
     d\<lparr>importBatches :=
         map (\<lambda>b. if ib_id b = bid
                  then b\<lparr>ib_status := status, ib_errorCount := Some errorCount,
                         ib_stagedCount := Some stagedCount,
                         ib_canonicalCount := Some canonicalCount\<rparr>
                  else b)
             (importBatches d)\<rparr>"

text \<open>
  The unique key \<open>branchCode_checkoutNo_itemId\<close> of the \<open>where\<close> clause, and the
  \<open>update\<close> and \<open>create\<close> objects of the upsert. In an update, Prisma leaves a column
  unchanged when the value given for it is \<open>undefined\<close>; \<open>batchId\<close> is not part of
  the update.
\<close>

definition sameKey :: "parsedRow \<Rightarrow> partsSalesLine \<Rightarrow> bool" where
  "sameKey d l \<longleftrightarrow>
     psl_branchCode l = d_branchCode d \<and> psl_checkoutNo l = d_checkoutNo d \<and>
     psl_itemId l = d_itemId d"

definition orKeep :: "'a option \<Rightarrow> 'a option \<Rightarrow> 'a option" where
  "orKeep new old = (case new of None \<Rightarrow> old | Some v \<Rightarrow> Some v)"

definition updateLine :: "parsedRow \<Rightarrow> jsstring option \<Rightarrow> partsSalesLine \<Rightarrow> partsSalesLine" where
  "updateLine d workOrderKey l =
     l\<lparr>psl_workOrderNo := orKeep (d_workOrderNo d) (psl_workOrderNo l),
       psl_workOrderKey := orKeep workOrderKey (psl_workOrderKey l),
       psl_partNo := d_partNo d,
       psl_partName := orKeep (d_partName d) (psl_partName l),
       psl_qty := orKeep (d_qty d) (psl_qty l),
       psl_saleAmount := orKeep (d_saleAmount d) (psl_saleAmount l),
       psl_costAmount := orKeep (d_costAmount d) (psl_costAmount l),
       psl_advisorName := orKeep (d_advisorName d) (psl_advisorName l),
       psl_salesName := orKeep (d_salesName d) (psl_salesName l)\<rparr>"

definition createLine :: "nat \<Rightarrow> parsedRow \<Rightarrow> jsstring option \<Rightarrow> partsSalesLine" where
  "createLine bid d workOrderKey =
     \<lparr>psl_batchId = bid, psl_branchCode = d_branchCode d, psl_checkoutNo = d_checkoutNo d,
      psl_itemId = d_itemId d, psl_workOrderNo = d_workOrderNo d,
      psl_workOrderKey = workOrderKey, psl_partNo = d_partNo d, psl_partName = d_partName d,
      psl_qty = d_qty d, psl_saleAmount = d_saleAmount d, psl_costAmount = d_costAmount d,
      psl_advisorName = d_advisorName d, psl_salesName = d_salesName d\<rparr>"

definition prisma_partsSalesLine_upsert ::
  "db \<Rightarrow> nat \<Rightarrow> parsedRow \<Rightarrow> jsstring option \<Rightarrow> db" where
  "prisma_partsSalesLine_upsert d bid row workOrderKey =
     (if list_ex (sameKey row) (partsSalesLines d)
      then d\<lparr>partsSalesLines :=
               map (\<lambda>l. if sameKey row l then updateLine row workOrderKey l else l)
                   (partsSalesLines d)\<rparr>
      else d\<lparr>partsSalesLines := partsSalesLines d @ [createLine bid row workOrderKey]\<rparr>)"

section \<open>Row decoder and batch coordinator\<close>

text \<open>\<open>r[idx]\<close>: reading past the end of a JavaScript array gives \<open>undefined\<close>.\<close>

definition cellAt :: "cell list \<Rightarrow> nat \<Rightarrow> cell" where
  "cellAt r idx = (if idx < length r then r ! idx else Undefined)"

text \<open>
  \<open>unknownObj[h] = v\<close> on a plain object: the property is added, or overwritten when
  the key is already there. The key \<open>__proto__\<close> is the one exception: assigning a
  primitive to it runs the prototype setter and adds no property.
\<close>

definition setProperty :: "(jsstring \<times> 'v) list \<Rightarrow> jsstring \<Rightarrow> 'v \<Rightarrow> (jsstring \<times> 'v) list" where
  "setProperty obj k v = (if k = u16 ''__proto__'' then obj else AList.update k v obj)"

text \<open>The \<open>headers.forEach\<close> that fills \<open>unknownObj\<close> for one row.\<close>

definition unknownFields :: "jsstring list \<Rightarrow> jsstring list \<Rightarrow> cell list \<Rightarrow> (jsstring \<times> cell) list" where
  "unknownFields headers unknown r =
     foldl (\<lambda>unknownObj (h, idx).
              if \<not> (h \<in> set unknown) then unknownObj
              else (let v = cellAt r idx
                    in if js_trim (js_String v) \<noteq> [] then setProperty unknownObj h v
                       else unknownObj))
           [] (zip headers [0..<length headers])"

text \<open>The \<open>Object.entries(map)\<close> loop that fills \<open>rawObj\<close> for one row.\<close>

definition knownFields :: "(string \<times> nat) list \<Rightarrow> cell list \<Rightarrow> (string \<times> jsstring) list" where
  "knownFields m r = map (\<lambda>(canonical, idx). (canonical, js_trim (js_String (cellAt r idx)))) m"

text \<open>\<open>d.workOrderNo && d.branchCode ? `${d.branchCode}_${d.workOrderNo}` : undefined\<close>.\<close>

definition workOrderKeyOf :: "parsedRow \<Rightarrow> jsstring option" where
  "workOrderKeyOf d =
     (case d_workOrderNo d of
        None \<Rightarrow> None
      | Some w \<Rightarrow> if w \<noteq> [] \<and> d_branchCode d \<noteq> [] then Some (d_branchCode d @ [95] @ w) else None)"

text \<open>A row of the sheet; \<open>None\<close> is an absent (\<open>undefined\<close>) element of \<open>rows\<close>.\<close>

type_synonym row = "cell list option"

record loopState =
  ls_db :: db
  errorCount :: nat
  stagedCount :: nat
  canonicalCount :: nat

text \<open>
  The body of the \<open>for\<close> loop of \<open>importPartsSalesXlsx\<close> for row \<open>i\<close>; every
  \<open>continue\<close> is a branch that returns the state reached so far.
\<close>

definition loopBody ::
  "jsstring list \<Rightarrow> (string \<times> nat) list \<Rightarrow> jsstring list \<Rightarrow> string list \<Rightarrow> nat \<Rightarrow>
   nat \<Rightarrow> row \<Rightarrow> loopState \<Rightarrow> loopState" where
  "loopBody headers m unknown missingRequired batchId i r st =
     (case r of
        None \<Rightarrow> st
      | Some cells \<Rightarrow>
          if list_all (\<lambda>v. js_trim (js_String v) = []) cells then st
          else
            (let rawObj = knownFields m cells;
                 unknownObj = unknownFields headers unknown cells;
                 st1 = st\<lparr>ls_db := prisma_stagingRow_create (ls_db st)
                              \<lparr>sr_batchId = batchId, sr_rowIndex = i, sr_data = rawObj,
                               sr_unknown = (if unknownObj \<noteq> [] then Some unknownObj else None)\<rparr>,
                          stagedCount := stagedCount st + 1\<rparr>
             in if missingRequired \<noteq> [] then st1\<lparr>errorCount := errorCount st1 + 1\<rparr>
                else
                  (case CanonicalRowSchema_safeParse rawObj of
                     None \<Rightarrow> st1\<lparr>errorCount := errorCount st1 + 1\<rparr>
                   | Some d \<Rightarrow>
                       st1\<lparr>ls_db := prisma_partsSalesLine_upsert (ls_db st1) batchId d
                                       (workOrderKeyOf d),
                           canonicalCount := canonicalCount st1 + 1\<rparr>)))"

text \<open>\<open>for (let i = ...; i < rows.length; i++)\<close> over the rows from index \<open>i\<close> on.\<close>

fun forRows :: "(nat \<Rightarrow> row \<Rightarrow> 's \<Rightarrow> 's) \<Rightarrow> nat \<Rightarrow> row list \<Rightarrow> 's \<Rightarrow> 's" where
  "forRows body i [] st = st"
| "forRows body i (r # rs) st = forRows body (Suc i) rs (body i r st)"

text \<open>
  \<open>JSON.stringify\<close> of an array of strings: each string quoted, with the quote, the
  backslash and the control characters below U+0020 escaped, and a surrogate that has no
  partner written as \<open>\udxxx\<close>.
\<close>

definition hexDigit :: "nat \<Rightarrow> nat" where
  "hexDigit n = (if n < 10 then 48 + n else 87 + n)"

definition unicodeEscape :: "nat \<Rightarrow> jsstring" where
  "unicodeEscape c =
     [92, 117, hexDigit (c div 4096 mod 16), hexDigit (c div 256 mod 16),
      hexDigit (c div 16 mod 16), hexDigit (c mod 16)]"

definition quoteUnit :: "nat \<Rightarrow> jsstring" where
  "quoteUnit c =
     (if c = 8 then [92, 98] else if c = 9 then [92, 116] else if c = 10 then [92, 110]
      else if c = 12 then [92, 102] else if c = 13 then [92, 114]
      else if c = 34 then [92, 34] else if c = 92 then [92, 92]
      else if c < 32 \<or> (55296 \<le> c \<and> c \<le> 57343) then unicodeEscape c
      else [c])"

fun quoteUnits :: "jsstring \<Rightarrow> jsstring" where
  "quoteUnits [] = []"
| "quoteUnits [c] = quoteUnit c"
| "quoteUnits (c # c' # cs) =
     (if 55296 \<le> c \<and> c \<le> 56319 \<and> 56320 \<le> c' \<and> c' \<le> 57343
      then c # c' # quoteUnits cs
      else quoteUnit c @ quoteUnits (c' # cs))"

definition quoteJSONString :: "jsstring \<Rightarrow> jsstring" where
  "quoteJSONString s = [34] @ quoteUnits s @ [34]"

fun joinWith :: "nat \<Rightarrow> jsstring list \<Rightarrow> jsstring" where
  "joinWith sep [] = []"
| "joinWith sep [s] = s"
| "joinWith sep (s # t # ss) = s @ [sep] @ joinWith sep (t # ss)"

definition JSON_stringify :: "jsstring list \<Rightarrow> jsstring" where
  "JSON_stringify xs = [91] @ joinWith 44 (map quoteJSONString xs) @ [93]"

text \<open>
  The header signature: the SHA-256 hex digest of the JSON text of the sorted normalized
  headers. \<open>sort\<close> compares strings by code units, as \<open>Array.prototype.sort\<close> does
  without a comparator. The digest function (Node's \<open>crypto\<close>) is a parameter.
\<close>

definition headerSignature :: "(jsstring \<Rightarrow> jsstring) \<Rightarrow> jsstring list \<Rightarrow> jsstring" where
  "headerSignature sha256hex normHeaders = sha256hex (JSON_stringify (sort normHeaders))"

datatype error = NoDataRows | TypeError

record importResult =
  res_batchId :: nat
  res_stagedCount :: nat
  res_canonicalCount :: nat
  res_errorCount :: nat
  res_missingRequired :: "string list"
  res_unknownColumns :: "jsstring list"

definition requiredKeys :: "string list" where
  "requiredKeys = [''branchCode'', ''checkoutNo'', ''itemId'', ''partNo'']"

definition missingRequiredOf :: "(string \<times> nat) list \<Rightarrow> string list" where
  "missingRequiredOf m = filter (\<lambda>k. map_of m k = None) requiredKeys"

text \<open>
  \<open>importPartsSalesXlsx\<close>, on the row array that \<open>sheet_to_json\<close> gives for the first
  worksheet. The function takes the database before the call and returns the database
  after it together with what the call returns: \<open>Inl\<close> an exception, \<open>Inr\<close> the result
  object. \<open>Inl NoDataRows\<close> is the \<open>Error\<close> thrown for fewer than two rows;
  \<open>Inl TypeError\<close> is what \<open>rows[0].map\<close> throws when the first element is absent.
\<close>

definition importPartsSalesXlsx ::
  "(jsstring \<Rightarrow> jsstring) \<Rightarrow> db \<Rightarrow> jsstring option \<Rightarrow> row list \<Rightarrow> db \<times> (error + importResult)" where
  "importPartsSalesXlsx sha256hex d fileName rows =
     (if length rows < 2 then (d, Inl NoDataRows)
      else
        (case hd rows of
           None \<Rightarrow> (d, Inl TypeError)
         | Some row0 \<Rightarrow>
             (let headers = map js_String row0;
                  hm = buildHeaderMap headers;
                  missingRequired = missingRequiredOf (hm_map hm);
                  (d1, batch) = prisma_importBatch_create d fileName
                                  (headerSignature sha256hex (hm_normHeaders hm))
                                  headers (hm_unknown hm);
                  st = forRows (loopBody headers (hm_map hm) (hm_unknown hm) missingRequired
                                  (ib_id batch))
                         1 (tl rows)
                         \<lparr>ls_db = d1, errorCount = 0, stagedCount = 0, canonicalCount = 0\<rparr>;
                  d2 = prisma_importBatch_update (ls_db st) (ib_id batch)
                         (if errorCount st > 0 then STAGED else TRANSFORMED)
                         (errorCount st) (stagedCount st) (canonicalCount st)
              in (d2, Inr \<lparr>res_batchId = ib_id batch, res_stagedCount = stagedCount st,
                           res_canonicalCount = canonicalCount st,
                           res_errorCount = errorCount st,
                           res_missingRequired = missingRequired,
                           res_unknownColumns = hm_unknown hm\<rparr>))))"

section \<open>Auxiliary notions for the statements\<close>

text \<open>The entry that \<open>buildHeaderMap\<close> adds to \<open>map\<close> for one line of the alias table.\<close>

definition entryOf :: "jsstring list \<Rightarrow> string \<times> jsstring list \<Rightarrow> (string \<times> nat) list" where
  "entryOf normHeaders e =
     (let idx = findIndex (\<lambda>h. h \<in> set (snd e)) normHeaders
      in if idx \<ge> 0 then [(fst e, nat idx)] else [])"

text \<open>The condition under which the loop skips a row: \<open>!r || r.every(...)\<close>.\<close>

definition blankRow :: "row \<Rightarrow> bool" where
  "blankRow r =
     (case r of None \<Rightarrow> True | Some cells \<Rightarrow> list_all (\<lambda>v. js_trim (js_String v) = []) cells)"

text \<open>The state in which the loop of an import with header row \<open>row0\<close> ends.\<close>

definition loopOf ::
  "(jsstring \<Rightarrow> jsstring) \<Rightarrow> db \<Rightarrow> jsstring option \<Rightarrow> cell list \<Rightarrow> row list \<Rightarrow> loopState" where
  "loopOf sha256hex d fileName row0 rest =
     (let headers = map js_String row0;
          hm = buildHeaderMap headers
      in forRows (loopBody headers (hm_map hm) (hm_unknown hm) (missingRequiredOf (hm_map hm))
                    (freshId (importBatches d)))
           1 rest
           \<lparr>ls_db = fst (prisma_importBatch_create d fileName
                           (headerSignature sha256hex (hm_normHeaders hm)) headers (hm_unknown hm)),
            errorCount = 0, stagedCount = 0, canonicalCount = 0\<rparr>)"

section \<open>Sample sheets\<close>

text \<open>
  An empty database, and a sheet whose header row names the branch (U+64DA U+9EDE), the
  checkout number, the item id, the part number (U+6599 U+865F), the quantity
  (U+6578 U+91CF) and a remark column (U+5099 U+8A3B) that no alias matches. Its data rows
  are a valid row, a blank row, a row whose quantity is \<open>abc\<close>, and a valid row whose
  quantity cell is empty.
\<close>

definition emptyDb :: db where
  "emptyDb = \<lparr>importBatches = [], stagingRows = [], partsSalesLines = []\<rparr>"

definition headersA :: "cell list" where
  "headersA = [Str [25818, 40670], Str [32080, 24115, 21934, 34399], Str [38917, 30446, 73, 68],
               Str [26009, 34399], Str [25976, 37327], Str [20633, 35387]]"

definition mapA :: "(string \<times> nat) list" where
  "mapA = [(''branchCode'', 0), (''checkoutNo'', 1), (''itemId'', 2), (''partNo'', 3), (''qty'', 4)]"

definition rowValid :: "cell list" where
  "rowValid = [Str (u16 ''A01''), Str (u16 ''C100''), Num 1, Str (u16 ''P-9''), Num 5,
               Str (u16 ''note'')]"

definition rowBlank :: "cell list" where
  "rowBlank = [Str [], Str (u16 '' ''), Null, Str [], Str [], Str []]"

definition rowAbc :: "cell list" where
  "rowAbc = [Str (u16 ''A01''), Str (u16 ''C100''), Num 2, Str (u16 ''P-9''), Str (u16 ''abc''),
             Str []]"

definition rowNoQty :: "cell list" where
  "rowNoQty = [Str (u16 ''A01''), Str (u16 ''C101''), Num 1, Str (u16 ''P-7''), Str [], Str []]"

text \<open>
  A valid row whose quantity cell holds only whitespace: a space, an ideographic space
  (U+3000) and a tab.
\<close>

definition rowSpaceQty :: "cell list" where
  "rowSpaceQty = [Str (u16 ''A01''), Str (u16 ''C102''), Num 1, Str (u16 ''P-7''),
                  Str [32, 12288, 9], Str []]"

definition sheetA :: "row list" where
  "sheetA = [Some headersA, Some rowValid, Some rowBlank, Some rowAbc, Some rowNoQty]"

text \<open>The same layout without the item-id column, with one data row and one blank row.\<close>

definition headersB :: "cell list" where
  "headersB = [Str [25818, 40670], Str [32080, 24115, 21934, 34399], Str [26009, 34399],
               Str [25976, 37327]]"

definition sheetB :: "row list" where
  "sheetB = [Some headersB,
             Some [Str (u16 ''A01''), Str (u16 ''C100''), Str (u16 ''P-9''), Num 5],
             Some [Str [], Str [], Str [], Str []]]"

text \<open>
  A sheet with two remark columns of the same header text, both filled in its one data
  row.
\<close>

definition headersC :: "cell list" where
  "headersC = [Str [25818, 40670], Str [32080, 24115, 21934, 34399], Str [38917, 30446, 73, 68],
               Str [26009, 34399], Str [20633, 35387], Str [20633, 35387]]"

definition rowC :: "cell list" where
  "rowC = [Str (u16 ''A01''), Str (u16 ''C100''), Num 1, Str (u16 ''P-9''), Str (u16 ''x''),
           Str (u16 ''y'')]"

definition sheetC :: "row list" where
  "sheetC = [Some headersC, Some rowC]"

text \<open>The loop state before the first row, on the empty database.\<close>

definition st0 :: loopState where
  "st0 = \<lparr>ls_db = emptyDb, errorCount = 0, stagedCount = 0, canonicalCount = 0\<rparr>"

section \<open>Properties of the header normalizer\<close>


lemma normalizeHeader_aliases:
  "map normalizeHeader (concat (map snd headerAliases)) = concat (map snd headerAliases)"
  by (simp add: headerAliases_def normalizeHeader_def js_trim_def isWhiteSpace_def)

lemma normalizeHeader_alias:
  assumes "(c, a) \<in> set headerAliases"
  shows "map normalizeHeader a = a"
proof -
  have "map normalizeHeader (concat (map snd headerAliases)) =
        map (\<lambda>x. x) (concat (map snd headerAliases))"
    unfolding normalizeHeader_aliases by simp
  then have "\<forall>x \<in> set (concat (map snd headerAliases)). normalizeHeader x = x"
    by (rule map_eq_conv [THEN iffD1])
  moreover have "set a \<subseteq> set (concat (map snd headerAliases))"
    using assms by force
  ultimately have "\<forall>x \<in> set a. normalizeHeader x = x" by blast
  then show ?thesis by (simp add: map_idI)
qed

lemma fold_entries:
  assumes "set xs \<subseteq> set headerAliases"
  shows "foldl (\<lambda>m (canonical, aliases).
                 let idx = findIndex (\<lambda>h. h \<in> set (map normalizeHeader aliases)) nhs
                 in if idx \<ge> 0 then m @ [(canonical, nat idx)] else m) acc xs
        = acc @ concat (map (entryOf nhs) xs)"
  using assms
proof (induction xs arbitrary: acc)
  case Nil
  then show ?case by simp
next
  case (Cons e xs)
  obtain c a where e: "e = (c, a)" by (cases e)
  with Cons.prems have "map normalizeHeader a = a"
    by (auto intro: normalizeHeader_alias)
  then have "normalizeHeader ` set a = set a"
    by (metis set_map)
  with Cons e show ?case by (simp add: entryOf_def Let_def)
qed

lemma hm_map_concat:
  "hm_map (buildHeaderMap headers) =
   concat (map (entryOf (map normalizeHeader headers)) headerAliases)"
proof -
  have "hm_map (buildHeaderMap headers) =
     foldl (\<lambda>m (canonical, aliases).
                 let idx = findIndex (\<lambda>h. h \<in> set (map normalizeHeader aliases)) (map normalizeHeader headers)
                 in if idx \<ge> 0 then m @ [(canonical, nat idx)] else m) [] headerAliases"
    unfolding buildHeaderMap_def by (metis headerMap.select_convs(1))
  also have "\<dots> = [] @ concat (map (entryOf (map normalizeHeader headers)) headerAliases)"
    by (rule fold_entries) simp
  finally show ?thesis by simp
qed

lemma hm_unknown_eq:
  "hm_unknown (buildHeaderMap headers) =
   filter (\<lambda>h. normalizeHeader h \<notin> set (concat (map snd headerAliases))) headers"
  unfolding buildHeaderMap_def Let_def normalizeHeader_aliases by simp


lemma findIndexFrom_found:
  assumes "\<exists>x \<in> set xs. P x"
  shows "\<exists>j < length xs. findIndexFrom P xs i = int (i + j) \<and> P (xs ! j) \<and> (\<forall>k < j. \<not> P (xs ! k))"
  using assms
proof (induction xs arbitrary: i)
  case Nil
  then show ?case by simp
next
  case (Cons x xs)
  show ?case
  proof (cases "P x")
    case True
    then show ?thesis by (intro exI [of _ 0]) simp
  next
    case False
    with Cons.prems have "\<exists>x \<in> set xs. P x" by simp
    from Cons.IH [OF this, of "Suc i"] obtain j where
      j: "j < length xs" "findIndexFrom P xs (Suc i) = int (Suc i + j)" "P (xs ! j)"
         "\<forall>k < j. \<not> P (xs ! k)" by blast
    have "\<forall>k < Suc j. \<not> P ((x # xs) ! k)"
      using False j(4) by (simp add: nth_Cons split: nat.splits)
    with False j show ?thesis by (intro exI [of _ "Suc j"]) simp
  qed
qed

lemma findIndex_found:
  assumes "i < length xs" and "P (xs ! i)"
  shows "\<exists>j \<le> i. findIndex P xs = int j \<and> P (xs ! j) \<and> (\<forall>k < j. \<not> P (xs ! k))"
proof -
  from assms have "\<exists>x \<in> set xs. P x" by (metis nth_mem)
  from findIndexFrom_found [OF this, of 0] obtain j where
    j: "j < length xs" "findIndexFrom P xs 0 = int j" "P (xs ! j)" "\<forall>k < j. \<not> P (xs ! k)"
    by auto
  from j(4) assms(2) have "j \<le> i" by (meson not_le)
  with j show ?thesis by (auto simp: findIndex_def)
qed

lemma entryOf_keys: "fst ` set (concat (map (entryOf nhs) xs)) \<subseteq> fst ` set xs"
  by (induction xs) (auto simp: entryOf_def Let_def split: if_splits)

lemma map_of_entries:
  assumes "distinct (map fst xs)" and "e \<in> set xs"
  shows "map_of (concat (map (entryOf nhs) xs)) (fst e) = map_of (entryOf nhs e) (fst e)"
  using assms
proof (induction xs)
  case Nil
  then show ?case by simp
next
  case (Cons x xs)
  show ?case
  proof (cases "e = x")
    case True
    have "fst x \<notin> fst ` set (concat (map (entryOf nhs) xs))"
      using Cons.prems(1) entryOf_keys [of nhs xs] by auto
    then have "map_of (concat (map (entryOf nhs) xs)) (fst x) = None"
      by (simp add: map_of_eq_None_iff)
    with True show ?thesis
      by (simp add: map_add_def split: option.splits)
  next
    case False
    with Cons.prems have e: "e \<in> set xs" by simp
    from Cons.prems(1) have "fst x \<notin> fst ` set xs" by simp
    with e have ne: "fst e \<noteq> fst x" by (metis imageI)
    have "map_of (entryOf nhs x) (fst e) = None"
      using ne by (simp add: entryOf_def Let_def)
    with Cons e show ?thesis by (simp add: map_add_def)
  qed
qed

lemma distinct_headerAliases: "distinct (map fst headerAliases)"
  by (simp add: headerAliases_def)

text \<open>
  C7: when several headers normalize to an alias of the same canonical field, the field's
  column index is the lowest matching index. A later matching header \<open>i\<close> is
  ignored without a trace in the result: it is not reported among the unknown columns, and
  the field is not reported as missing.
\<close>

theorem C7_first_match_wins:
  assumes "(canonical, aliases) \<in> set headerAliases"
    and "i < length headers"
    and "normalizeHeader (headers ! i) \<in> set (map normalizeHeader aliases)"
  shows "\<exists>j \<le> i. map_of (hm_map (buildHeaderMap headers)) canonical = Some j \<and>
           normalizeHeader (headers ! j) \<in> set (map normalizeHeader aliases) \<and>
           (\<forall>k < j. normalizeHeader (headers ! k) \<notin> set (map normalizeHeader aliases)) \<and>
           headers ! i \<notin> set (hm_unknown (buildHeaderMap headers)) \<and>
           canonical \<notin> set (missingRequiredOf (hm_map (buildHeaderMap headers)))"
proof -
  let ?nhs = "map normalizeHeader headers"
  have a: "map normalizeHeader aliases = aliases"
    using assms(1) by (rule normalizeHeader_alias)
  have "i < length ?nhs" and "?nhs ! i \<in> set aliases"
    using assms(2,3) a by simp_all
  from findIndex_found [of i ?nhs "\<lambda>h. h \<in> set aliases", OF this] obtain j where
    j: "j \<le> i" "findIndex (\<lambda>h. h \<in> set aliases) ?nhs = int j" "?nhs ! j \<in> set aliases"
       "\<forall>k < j. ?nhs ! k \<notin> set aliases" by blast
  have m: "map_of (hm_map (buildHeaderMap headers)) canonical = Some j"
    using map_of_entries [OF distinct_headerAliases assms(1), of ?nhs] j(2)
    by (simp add: hm_map_concat entryOf_def)
  have "normalizeHeader (headers ! i) \<in> set (concat (map snd headerAliases))"
    using assms(1,3) a by force
  then have u: "headers ! i \<notin> set (hm_unknown (buildHeaderMap headers))"
    by (simp add: hm_unknown_eq del: set_concat)
  have "canonical \<notin> set (missingRequiredOf (hm_map (buildHeaderMap headers)))"
    using m by (simp add: missingRequiredOf_def)
  with m u j assms(2) a show ?thesis
    by (intro exI [of _ j]) simp
qed

text \<open>
  The theorem at three headers of which the first and the third both name the quantity:
  the quantity column is resolved at or before the third header, and the third header is
  not listed as unknown.
\<close>

theorem C7_first_match_wins_witness:
  "(''qty'', [[37559, 21806, 25976, 37327], [25976, 37327], [25976, 37327, 40, 37559, 21806, 41]])
     \<in> set headerAliases \<and>
   (\<exists>j \<le> 2. map_of (hm_map (buildHeaderMap
        [[25976, 37327], [25818, 40670], [32, 37559, 21806, 32, 25976, 37327]])) ''qty'' = Some j \<and>
      (\<forall>k < j. normalizeHeader ([[25976, 37327], [25818, 40670],
                    [32, 37559, 21806, 32, 25976, 37327]] ! k)
         \<notin> set [[37559, 21806, 25976, 37327], [25976, 37327],
                  [25976, 37327, 40, 37559, 21806, 41]]) \<and>
      [32, 37559, 21806, 32, 25976, 37327] \<notin> set (hm_unknown (buildHeaderMap
        [[25976, 37327], [25818, 40670], [32, 37559, 21806, 32, 25976, 37327]])))"
proof -
  let ?a = "[[37559, 21806, 25976, 37327], [25976, 37327], [25976, 37327, 40, 37559, 21806, 41]]"
  let ?hs = "[[25976, 37327], [25818, 40670], [32, 37559, 21806, 32, 25976, 37327]]"
  have h1: "(''qty'', ?a) \<in> set headerAliases"
    by (simp add: headerAliases_def)
  have h2: "2 < length ?hs" by simp
  have n: "map normalizeHeader ?a = ?a"
    by (simp add: normalizeHeader_def js_trim_def isWhiteSpace_def)
  have h3: "normalizeHeader (?hs ! 2) \<in> set (map normalizeHeader ?a)"
    unfolding n by (simp add: normalizeHeader_def js_trim_def isWhiteSpace_def)
  show ?thesis
    using h1 C7_first_match_wins [OF h1 h2 h3] unfolding n by auto
qed

section \<open>Properties of the header signature\<close>

lemma hm_normHeaders_eq:
  "hm_normHeaders (buildHeaderMap headers) = map normalizeHeader headers"
  by (simp add: buildHeaderMap_def Let_def)

text \<open>
  C4: the header signature of a header list and of any permutation of it (the same
  headers with the same multiplicities, in another order) are the same, whatever the
  digest function.
\<close>

theorem C4_signature_order_independent:
  assumes "mset headers' = mset headers"
  shows "headerSignature sha256hex (hm_normHeaders (buildHeaderMap headers')) =
         headerSignature sha256hex (hm_normHeaders (buildHeaderMap headers))"
proof -
  have "mset (map normalizeHeader headers') = mset (map normalizeHeader headers)"
    using assms by (metis mset_map)
  then have "sort (map normalizeHeader headers') = sort (map normalizeHeader headers)"
    by (intro properties_for_sort) simp_all
  then show ?thesis
    by (simp add: headerSignature_def hm_normHeaders_eq)
qed

section \<open>Properties of the row loop\<close>

lemma forRows_invariant:
  assumes "P st" and "\<And>i r s. P s \<Longrightarrow> P (body i r s)"
  shows "P (forRows body i rs st)"
  using assms(1)
  by (induction rs arbitrary: i st) (simp_all add: assms(2))

lemma loopBody_blank:
  "blankRow r \<Longrightarrow> loopBody headers m unknown missing bid i r st = st"
  by (simp add: loopBody_def blankRow_def split: option.splits)

lemma loopBody_counts:
  "stagedCount st = canonicalCount st + errorCount st \<Longrightarrow>
   stagedCount (loopBody headers m unknown missing bid i r st) =
   canonicalCount (loopBody headers m unknown missing bid i r st) +
   errorCount (loopBody headers m unknown missing bid i r st)"
  by (simp add: loopBody_def Let_def split: option.splits)

lemma loopBody_importBatches:
  "importBatches (ls_db (loopBody headers m unknown missing bid i r st)) = importBatches (ls_db st)"
  by (simp add: loopBody_def Let_def prisma_stagingRow_create_def prisma_partsSalesLine_upsert_def
      split: option.splits)

lemma loopBody_staged:
  "stagedCount (loopBody headers m unknown missing bid i r st) =
   stagedCount st + (if blankRow r then 0 else 1)"
  by (simp add: loopBody_def Let_def blankRow_def split: option.splits)

lemma loopBody_stagingRows:
  "\<exists>news. stagingRows (ls_db (loopBody headers m unknown missing bid i r st)) =
            stagingRows (ls_db st) @ news \<and>
          map sr_rowIndex news = (if blankRow r then [] else [i]) \<and>
          (\<forall>s \<in> set news. sr_batchId s = bid)"
  by (simp add: loopBody_def Let_def blankRow_def prisma_stagingRow_create_def
      prisma_partsSalesLine_upsert_def split: option.splits)

lemma loopBody_missing:
  assumes "missing \<noteq> []"
  shows "canonicalCount (loopBody headers m unknown missing bid i r st) = canonicalCount st"
    and "partsSalesLines (ls_db (loopBody headers m unknown missing bid i r st)) =
         partsSalesLines (ls_db st)"
    and "errorCount (loopBody headers m unknown missing bid i r st) =
         errorCount st + (if blankRow r then 0 else 1)"
  using assms
  by (simp_all add: loopBody_def Let_def blankRow_def prisma_stagingRow_create_def
      split: option.splits)

lemma forRows_staged:
  "stagedCount (forRows (loopBody headers m unknown missing bid) i rs st) =
   stagedCount st + length (filter (\<lambda>r. \<not> blankRow r) rs)"
  by (induction rs arbitrary: i st) (simp_all add: loopBody_staged)

lemma filter_upt_shift:
  "filter (\<lambda>j. P ((r # rs) ! (j - i))) [Suc i..<Suc i + length rs] =
   filter (\<lambda>j. P (rs ! (j - Suc i))) [Suc i..<Suc i + length rs]"
proof (rule filter_cong [OF refl])
  fix j
  assume "j \<in> set [Suc i..<Suc i + length rs]"
  then have "j - i = Suc (j - Suc i)" by auto
  then show "P ((r # rs) ! (j - i)) = P (rs ! (j - Suc i))" by simp
qed

lemma forRows_stagingRows:
  "\<exists>news. stagingRows (ls_db (forRows (loopBody headers m unknown missing bid) i rs st)) =
            stagingRows (ls_db st) @ news \<and>
          map sr_rowIndex news = filter (\<lambda>j. \<not> blankRow (rs ! (j - i))) [i..<i + length rs] \<and>
          (\<forall>s \<in> set news. sr_batchId s = bid)"
proof (induction rs arbitrary: i st)
  case Nil
  then show ?case by simp
next
  case (Cons r rs)
  let ?st1 = "loopBody headers m unknown missing bid i r st"
  obtain n1 where n1: "stagingRows (ls_db ?st1) = stagingRows (ls_db st) @ n1"
      "map sr_rowIndex n1 = (if blankRow r then [] else [i])" "\<forall>s \<in> set n1. sr_batchId s = bid"
    using loopBody_stagingRows by blast
  obtain n2 where n2:
      "stagingRows (ls_db (forRows (loopBody headers m unknown missing bid) (Suc i) rs ?st1)) =
       stagingRows (ls_db ?st1) @ n2"
      "map sr_rowIndex n2 = filter (\<lambda>j. \<not> blankRow (rs ! (j - Suc i))) [Suc i..<Suc i + length rs]"
      "\<forall>s \<in> set n2. sr_batchId s = bid"
    using Cons.IH by blast
  have "[i..<i + length (r # rs)] = i # [Suc i..<i + length (r # rs)]"
    by (rule upt_conv_Cons) simp
  then have "[i..<i + length (r # rs)] = i # [Suc i..<Suc i + length rs]"
    by simp
  then have "filter (\<lambda>j. \<not> blankRow ((r # rs) ! (j - i))) [i..<i + length (r # rs)] =
      (if blankRow r then [] else [i]) @
      filter (\<lambda>j. \<not> blankRow (rs ! (j - Suc i))) [Suc i..<Suc i + length rs]"
    using filter_upt_shift [of "\<lambda>r. \<not> blankRow r" r rs i] by simp
  with n1 n2 show ?case
    by (intro exI [of _ "n1 @ n2"]) auto
qed


section \<open>Properties of the import\<close>

lemma import_completed:
  assumes "2 \<le> length rows" and "hd rows = Some row0"
  shows "importPartsSalesXlsx h d fn rows =
     (let st = loopOf h d fn row0 (tl rows);
          hm = buildHeaderMap (map js_String row0)
      in (prisma_importBatch_update (ls_db st) (freshId (importBatches d))
            (if errorCount st > 0 then STAGED else TRANSFORMED)
            (errorCount st) (stagedCount st) (canonicalCount st),
          Inr \<lparr>res_batchId = freshId (importBatches d), res_stagedCount = stagedCount st,
               res_canonicalCount = canonicalCount st, res_errorCount = errorCount st,
               res_missingRequired = missingRequiredOf (hm_map hm),
               res_unknownColumns = hm_unknown hm\<rparr>))"
  using assms
  by (simp add: importPartsSalesXlsx_def loopOf_def prisma_importBatch_create_def Let_def)

lemma import_InrD:
  assumes "importPartsSalesXlsx h d fn rows = (d', Inr res)"
  obtains row0 where "2 \<le> length rows" and "hd rows = Some row0"
  using assms
  by (auto simp: importPartsSalesXlsx_def Let_def split: option.splits prod.splits if_splits)

lemma loopOf_counts:
  "stagedCount (loopOf h d fn row0 rest) =
   canonicalCount (loopOf h d fn row0 rest) + errorCount (loopOf h d fn row0 rest)"
  unfolding loopOf_def Let_def
  by (rule forRows_invariant) (simp_all add: loopBody_counts)

lemma loopOf_importBatches:
  "importBatches (ls_db (loopOf h d fn row0 rest)) =
   importBatches (fst (prisma_importBatch_create d fn
       (headerSignature h (hm_normHeaders (buildHeaderMap (map js_String row0))))
       (map js_String row0) (hm_unknown (buildHeaderMap (map js_String row0)))))"
  unfolding loopOf_def Let_def
  by (rule forRows_invariant) (simp_all add: loopBody_importBatches)

lemma freshId_gt: "b \<in> set bs \<Longrightarrow> ib_id b < freshId bs"
  unfolding freshId_def by (induction bs) auto

text \<open>
  C3: a sheet of fewer than two rows makes the import throw the no-data-rows error with
  the database exactly as it was (no batch, staging row or canonical row is written). With
  two rows or more nothing is thrown once the header row has been read: the call returns
  a result object, and the only other exception is the one raised before the loop when
  the first element of the row array is absent.
\<close>

theorem C3_only_hard_failure:
  "(length rows < 2 \<longrightarrow> importPartsSalesXlsx h d fn rows = (d, Inl NoDataRows)) \<and>
   (2 \<le> length rows \<longrightarrow>
      (case hd rows of
         None \<Rightarrow> importPartsSalesXlsx h d fn rows = (d, Inl TypeError)
       | Some row0 \<Rightarrow> \<exists>d' res. importPartsSalesXlsx h d fn rows = (d', Inr res)))"
  by (auto simp: importPartsSalesXlsx_def Let_def split: option.splits prod.splits)

text \<open>
  C9: in every completed import the staged counter is the sum of the canonical counter
  and the error counter.
\<close>

theorem C9_staged_is_canonical_plus_error:
  assumes "importPartsSalesXlsx h d fn rows = (d', Inr res)"
  shows "res_stagedCount res = res_canonicalCount res + res_errorCount res"
proof -
  from assms obtain row0 where r: "2 \<le> length rows" "hd rows = Some row0"
    by (rule import_InrD)
  from assms have "res_stagedCount res = stagedCount (loopOf h d fn row0 (tl rows))"
    and "res_canonicalCount res = canonicalCount (loopOf h d fn row0 (tl rows))"
    and "res_errorCount res = errorCount (loopOf h d fn row0 (tl rows))"
    unfolding import_completed [OF r] Let_def by auto
  then show ?thesis by (simp add: loopOf_counts)
qed

text \<open>
  C6: a completed import leaves exactly one new batch, the one whose identifier is
  returned; its status is TRANSFORMED if and only if the error counter is zero and STAGED
  otherwise, and it carries the three final counters.
\<close>

theorem C6_final_status_and_counters:
  assumes "importPartsSalesXlsx h d fn rows = (d', Inr res)"
  shows "\<exists>b. importBatches d' = importBatches d @ [b] \<and> ib_id b = res_batchId res \<and>
           (ib_status b = TRANSFORMED \<longleftrightarrow> res_errorCount res = 0) \<and>
           (ib_status b = STAGED \<longleftrightarrow> res_errorCount res \<noteq> 0) \<and>
           ib_errorCount b = Some (res_errorCount res) \<and>
           ib_stagedCount b = Some (res_stagedCount res) \<and>
           ib_canonicalCount b = Some (res_canonicalCount res)"
proof -
  from assms obtain row0 where r: "2 \<le> length rows" "hd rows = Some row0"
    by (rule import_InrD)
  let ?st = "loopOf h d fn row0 (tl rows)"
  let ?bid = "freshId (importBatches d)"
  from assms have d': "d' = prisma_importBatch_update (ls_db ?st) ?bid
        (if errorCount ?st > 0 then STAGED else TRANSFORMED)
        (errorCount ?st) (stagedCount ?st) (canonicalCount ?st)"
    and res: "res_batchId res = ?bid" "res_errorCount res = errorCount ?st"
      "res_stagedCount res = stagedCount ?st" "res_canonicalCount res = canonicalCount ?st"
    unfolding import_completed [OF r] Let_def by auto
  obtain b0 where b0: "importBatches (ls_db ?st) = importBatches d @ [b0]" "ib_id b0 = ?bid"
    by (simp add: loopOf_importBatches prisma_importBatch_create_def Let_def)
  have old: "map (\<lambda>b. if ib_id b = ?bid then f b else b) (importBatches d) = importBatches d" for f
    by (rule map_idI) (use freshId_gt in fastforce)
  show ?thesis
    unfolding d' res
    by (simp add: prisma_importBatch_update_def b0 old)
qed

lemma loopOf_missing:
  assumes "missingRequiredOf (hm_map (buildHeaderMap (map js_String row0))) \<noteq> []"
  shows "canonicalCount (loopOf h d fn row0 rest) = 0 \<and>
         errorCount (loopOf h d fn row0 rest) = stagedCount (loopOf h d fn row0 rest) \<and>
         partsSalesLines (ls_db (loopOf h d fn row0 rest)) = partsSalesLines d"
  unfolding loopOf_def Let_def
  by (rule forRows_invariant)
     (simp_all add: loopBody_missing [OF assms] loopBody_staged prisma_importBatch_create_def Let_def)

lemma loopOf_staged:
  "stagedCount (loopOf h d fn row0 rest) = length (filter (\<lambda>r. \<not> blankRow r) rest)"
  unfolding loopOf_def Let_def by (simp add: forRows_staged)

lemma loopOf_stagingRows:
  "\<exists>news. stagingRows (ls_db (loopOf h d fn row0 rest)) = stagingRows d @ news \<and>
          map sr_rowIndex news = filter (\<lambda>j. \<not> blankRow (rest ! (j - 1))) [1..<1 + length rest] \<and>
          (\<forall>s \<in> set news. sr_batchId s = freshId (importBatches d))"
proof -
  let ?hm = "buildHeaderMap (map js_String row0)"
  let ?st0 = "\<lparr>ls_db = fst (prisma_importBatch_create d fn
                           (headerSignature h (hm_normHeaders ?hm)) (map js_String row0) (hm_unknown ?hm)),
            errorCount = 0, stagedCount = 0, canonicalCount = 0\<rparr>"
  have "stagingRows (ls_db ?st0) = stagingRows d"
    by (simp add: prisma_importBatch_create_def Let_def)
  with forRows_stagingRows [of "map js_String row0" "hm_map ?hm" "hm_unknown ?hm"
      "missingRequiredOf (hm_map ?hm)" "freshId (importBatches d)" 1 rest ?st0]
  show ?thesis unfolding loopOf_def Let_def by simp
qed

lemma loopBody_stagingRows_length:
  "length (stagingRows (ls_db (loopBody headers m unknown missing bid i r st))) =
   length (stagingRows (ls_db st)) + (if blankRow r then 0 else 1)"
  by (simp add: loopBody_def Let_def blankRow_def prisma_stagingRow_create_def
      prisma_partsSalesLine_upsert_def split: option.splits)

lemma forRows_stagingRows_length:
  "length (stagingRows (ls_db (forRows (loopBody headers m unknown missing bid) i rs st))) =
   length (stagingRows (ls_db st)) + length (filter (\<lambda>r. \<not> blankRow r) rs)"
  by (induction rs arbitrary: i st) (simp_all add: loopBody_stagingRows_length)

lemma loopOf_stagingRows_length:
  "length (stagingRows (ls_db (loopOf h d fn row0 rest))) =
   length (stagingRows d) + length (filter (\<lambda>r. \<not> blankRow r) rest)"
  unfolding loopOf_def Let_def
  by (simp add: forRows_stagingRows_length prisma_importBatch_create_def Let_def)

lemma missingRequired_iff:
  "missingRequiredOf m \<noteq> [] \<longleftrightarrow> (\<exists>k \<in> set requiredKeys. map_of m k = None)"
  by (simp add: missingRequiredOf_def filter_empty_conv)

text \<open>
  C1: when one of the four required canonical fields has no resolved column, the import
  completes with canonicalCount 0 and errorCount equal to stagedCount; every non-blank
  data row is staged (stagedCount is their number, and as many staging rows are added),
  and the canonical table is left as it was.
\<close>

theorem C1_missing_required_header:
  assumes "2 \<le> length rows" and "hd rows = Some row0"
    and "k \<in> set requiredKeys"
    and "map_of (hm_map (buildHeaderMap (map js_String row0))) k = None"
  shows "\<exists>d' res. importPartsSalesXlsx h d fn rows = (d', Inr res) \<and>
           res_canonicalCount res = 0 \<and>
           res_errorCount res = res_stagedCount res \<and>
           res_stagedCount res = length (filter (\<lambda>r. \<not> blankRow r) (tl rows)) \<and>
           length (stagingRows d') = length (stagingRows d) + res_stagedCount res \<and>
           partsSalesLines d' = partsSalesLines d"
proof -
  let ?st = "loopOf h d fn row0 (tl rows)"
  have miss: "missingRequiredOf (hm_map (buildHeaderMap (map js_String row0))) \<noteq> []"
    using assms(3,4) by (auto simp: missingRequired_iff)
  note m = loopOf_missing [OF miss, of h d fn "tl rows"]
  show ?thesis
    unfolding import_completed [OF assms(1,2)] Let_def
    using m
    by (simp add: prisma_importBatch_update_def loopOf_staged loopOf_stagingRows_length)
qed


text \<open>
  C8: a row that is absent, or all of whose cells are blank or whitespace-only, leaves the
  whole loop state as it was: no staging row is written and none of the three counters
  moves. In a completed import no new staging row carries the index of such a row, and
  stagedCount is the number of the other data rows.
\<close>

theorem C8_blank_row_skipped:
  assumes "r = None \<or> (\<exists>cells. r = Some cells \<and> (\<forall>v \<in> set cells. js_trim (js_String v) = []))"
  shows "loopBody headers m unknown missing bid i r st = st \<and>
         (importPartsSalesXlsx h d fn rows = (d', Inr res) \<and> 1 \<le> i \<and> i < length rows \<and>
          rows ! i = r \<longrightarrow>
            (\<exists>news. stagingRows d' = stagingRows d @ news \<and> i \<notin> sr_rowIndex ` set news) \<and>
            res_stagedCount res = length (filter (\<lambda>r. \<not> blankRow r) (tl rows)))"
proof -
  have blank: "blankRow r"
    using assms by (auto simp: blankRow_def list_all_iff)
  have step: "loopBody headers m unknown missing bid i r st = st"
    using blank by (rule loopBody_blank)
  have "(\<exists>news. stagingRows d' = stagingRows d @ news \<and> i \<notin> sr_rowIndex ` set news) \<and>
        res_stagedCount res = length (filter (\<lambda>r. \<not> blankRow r) (tl rows))"
    if imp: "importPartsSalesXlsx h d fn rows = (d', Inr res)"
      and i: "1 \<le> i" "i < length rows" "rows ! i = r"
  proof -
    from imp obtain row0 where r0: "2 \<le> length rows" "hd rows = Some row0"
      by (rule import_InrD)
    let ?st = "loopOf h d fn row0 (tl rows)"
    from imp have d': "stagingRows d' = stagingRows (ls_db ?st)"
      and res: "res_stagedCount res = stagedCount ?st"
      unfolding import_completed [OF r0] Let_def
      by (auto simp: prisma_importBatch_update_def)
    obtain news where news: "stagingRows (ls_db ?st) = stagingRows d @ news"
      "map sr_rowIndex news =
         filter (\<lambda>j. \<not> blankRow (tl rows ! (j - 1))) [1..<1 + length (tl rows)]"
      using loopOf_stagingRows by blast
    have "tl rows ! (i - 1) = rows ! i"
      using i(1,2) by (simp add: nth_tl)
    with blank i(3) have "i \<notin> set (map sr_rowIndex news)"
      unfolding news(2) by simp
    then have "i \<notin> sr_rowIndex ` set news" by simp
    with news(1) d' res show ?thesis
      by (auto simp: loopOf_staged)
  qed
  with step show ?thesis by blast
qed

section \<open>Properties of the validation gate\<close>

lemma map_of_knownFields:
  "map_of (knownFields m cells) k =
   map_option (\<lambda>idx. js_trim (js_String (cellAt cells idx))) (map_of m k)"
  unfolding knownFields_def by (induction m) auto

lemma js_trim_empty: "js_trim [] = []"
  by (simp add: js_trim_def)

lemma js_trim_whitespace:
  assumes "list_all isWhiteSpace s"
  shows "js_trim s = []"
proof -
  from assms have e: "dropWhile isWhiteSpace s = []"
    by (induction s) simp_all
  show ?thesis unfolding js_trim_def e by simp
qed

lemma js_Number_empty: "js_Number [] = Finite 0"
  by (simp add: js_Number_def js_trim_empty)

lemma safeParse_numeric:
  assumes "CanonicalRowSchema_safeParse rawObj = Some d"
  shows "z_coerce_number_optional (map_of rawObj ''qty'') = Some (d_qty d)"
    and "z_coerce_number_optional (map_of rawObj ''saleAmount'') = Some (d_saleAmount d)"
    and "z_coerce_number_optional (map_of rawObj ''costAmount'') = Some (d_costAmount d)"
  using assms
  by (auto simp: CanonicalRowSchema_safeParse_def split: option.splits)

lemma safeParse_NaN:
  assumes "k \<in> {''qty'', ''saleAmount'', ''costAmount''}"
    and "map_of rawObj k = Some s" and "js_Number s = NaN"
  shows "CanonicalRowSchema_safeParse rawObj = None"
proof -
  have "z_coerce_number_optional (map_of rawObj k) = None"
    using assms(2,3) by (simp add: z_coerce_number_optional_def)
  with assms(1) show ?thesis
    by (auto simp: CanonicalRowSchema_safeParse_def split: option.splits)
qed

lemma sameKey_updateLine: "sameKey d (updateLine d' w l) = sameKey d l"
  by (simp add: sameKey_def updateLine_def)

lemma upsert_has_key:
  "\<exists>l \<in> set (partsSalesLines (prisma_partsSalesLine_upsert db bid d w)). sameKey d l"
proof (cases "list_ex (sameKey d) (partsSalesLines db)")
  case True
  then obtain l where l: "l \<in> set (partsSalesLines db)" "sameKey d l"
    by (auto simp: list_ex_iff)
  then have "updateLine d w l \<in> set (partsSalesLines (prisma_partsSalesLine_upsert db bid d w))"
    using True by (auto simp: prisma_partsSalesLine_upsert_def)
  moreover have "sameKey d (updateLine d w l)"
    using l(2) by (simp add: sameKey_updateLine)
  ultimately show ?thesis by blast
next
  case False
  then have "createLine bid d w \<in> set (partsSalesLines (prisma_partsSalesLine_upsert db bid d w))"
    by (simp add: prisma_partsSalesLine_upsert_def)
  moreover have "sameKey d (createLine bid d w)"
    by (simp add: sameKey_def createLine_def)
  ultimately show ?thesis by blast
qed

lemma upsert_numeric:
  assumes "l \<in> set (partsSalesLines (prisma_partsSalesLine_upsert db bid d w))"
    and "sameKey d l"
  shows "d_qty d = Some v \<Longrightarrow> psl_qty l = Some v"
    and "d_saleAmount d = Some v \<Longrightarrow> psl_saleAmount l = Some v"
    and "d_costAmount d = Some v \<Longrightarrow> psl_costAmount l = Some v"
  using assms
  by (auto simp: prisma_partsSalesLine_upsert_def list_ex_iff updateLine_def createLine_def
      orKeep_def split: if_splits)


text \<open>
  C5: a non-blank row whose extracted quantity, sale amount or cost amount does not parse
  as a number (\<open>Number\<close> gives \<open>NaN\<close>; such a string is never empty, the empty
  string being 0) fails validation: its staging row is written, the canonical table and
  the canonical counter are left as they were, and the staged counter and the error
  counter each grow by exactly one. This holds whatever the other fields of the row are,
  so in particular when the required fields are present and non-empty.
\<close>

theorem C5_non_numeric_amount:
  assumes "\<not> list_all (\<lambda>v. js_trim (js_String v) = []) cells"
    and "k \<in> {''qty'', ''saleAmount'', ''costAmount''}"
    and "map_of (knownFields m cells) k = Some s"
    and "js_Number s = NaN"
  shows "s \<noteq> [] \<and>
         CanonicalRowSchema_safeParse (knownFields m cells) = None \<and>
         stagedCount (loopBody headers m unknown missing bid i (Some cells) st) = stagedCount st + 1 \<and>
         errorCount (loopBody headers m unknown missing bid i (Some cells) st) = errorCount st + 1 \<and>
         canonicalCount (loopBody headers m unknown missing bid i (Some cells) st) = canonicalCount st \<and>
         partsSalesLines (ls_db (loopBody headers m unknown missing bid i (Some cells) st)) =
           partsSalesLines (ls_db st) \<and>
         stagingRows (ls_db (loopBody headers m unknown missing bid i (Some cells) st)) =
           stagingRows (ls_db st) @
           [\<lparr>sr_batchId = bid, sr_rowIndex = i, sr_data = knownFields m cells,
             sr_unknown = (if unknownFields headers unknown cells \<noteq> []
                           then Some (unknownFields headers unknown cells) else None)\<rparr>]"
proof -
  have "s \<noteq> []"
    using assms(4) by (auto simp: js_Number_empty)
  moreover have "CanonicalRowSchema_safeParse (knownFields m cells) = None"
    using assms(2,3,4) by (rule safeParse_NaN)
  ultimately show ?thesis
    using assms(1) by (simp add: loopBody_def Let_def prisma_stagingRow_create_def)
qed

text \<open>
  C10: in a non-blank row that passes validation (all required columns resolved), take a
  mapped quantity, sale-amount or cost-amount column whose cell is blank or
  whitespace-only, that is, whose text consists of whitespace characters only (the empty
  text included, as for an empty, \<open>null\<close> or missing cell). The value extracted for the
  field is the empty string; the field schema accepts it and coerces it to the number 0;
  the parsed row carries 0 in that field, the row is counted as canonical and not as an
  error, and the canonical line stored under the row's business key has 0 in that column.
\<close>

theorem C10_blank_numeric_cell_is_zero:
  assumes "\<not> list_all (\<lambda>v. js_trim (js_String v) = []) cells"
    and "(k, field, column) \<in> {(''qty'', d_qty, psl_qty),
                                 (''saleAmount'', d_saleAmount, psl_saleAmount),
                                 (''costAmount'', d_costAmount, psl_costAmount)}"
    and "map_of m k = Some idx"
    and "list_all isWhiteSpace (js_String (cellAt cells idx))"
    and "CanonicalRowSchema_safeParse (knownFields m cells) = Some d"
  shows "map_of (knownFields m cells) k = Some [] \<and>
         z_coerce_number_optional (map_of (knownFields m cells) k) = Some (Some (Finite 0)) \<and>
         field d = Some (Finite 0) \<and>
         canonicalCount (loopBody headers m unknown [] bid i (Some cells) st) = canonicalCount st + 1 \<and>
         errorCount (loopBody headers m unknown [] bid i (Some cells) st) = errorCount st \<and>
         (\<exists>l \<in> set (partsSalesLines (ls_db (loopBody headers m unknown [] bid i (Some cells) st))).
            sameKey d l) \<and>
         (\<forall>l \<in> set (partsSalesLines (ls_db (loopBody headers m unknown [] bid i (Some cells) st))).
            sameKey d l \<longrightarrow> column l = Some (Finite 0))"
proof -
  let ?raw = "knownFields m cells"
  let ?st' = "loopBody headers m unknown [] bid i (Some cells) st"
  have extracted: "js_trim (js_String (cellAt cells idx)) = []"
    using assms(4) by (rule js_trim_whitespace)
  have raw: "map_of ?raw k = Some []"
    using assms(3) extracted by (simp add: map_of_knownFields)
  have z: "z_coerce_number_optional (map_of ?raw k) = Some (Some (Finite 0))"
    by (simp add: raw z_coerce_number_optional_def js_Number_empty)
  have f: "field d = Some (Finite 0)"
    using assms(2) safeParse_numeric [OF assms(5)] z by auto
  have db: "partsSalesLines (ls_db ?st') =
      partsSalesLines (prisma_partsSalesLine_upsert
        (prisma_stagingRow_create (ls_db st)
           \<lparr>sr_batchId = bid, sr_rowIndex = i, sr_data = ?raw,
            sr_unknown = (if unknownFields headers unknown cells \<noteq> []
                          then Some (unknownFields headers unknown cells) else None)\<rparr>)
        bid d (workOrderKeyOf d))"
    and cnt: "canonicalCount ?st' = canonicalCount st + 1" "errorCount ?st' = errorCount st"
    using assms(1,5) by (simp_all add: loopBody_def Let_def)
  have ex: "\<exists>l \<in> set (partsSalesLines (ls_db ?st')). sameKey d l"
    unfolding db by (rule upsert_has_key)
  have all: "\<forall>l \<in> set (partsSalesLines (ls_db ?st')). sameKey d l \<longrightarrow> column l = Some (Finite 0)"
    unfolding db using assms(2) f by (auto dest: upsert_numeric)
  from raw z f cnt ex all show ?thesis by blast
qed

section \<open>Properties of the row decoder\<close>

lemma unknownFields_snoc:
  "unknownFields (hs @ [x]) unknown r =
     (if x \<in> set unknown \<and> js_trim (js_String (cellAt r (length hs))) \<noteq> []
      then setProperty (unknownFields hs unknown r) x (cellAt r (length hs))
      else unknownFields hs unknown r)"
  by (simp add: unknownFields_def Let_def)

lemma map_of_setProperty:
  "map_of (setProperty obj k v) k' =
     (if k = k' \<and> k \<noteq> u16 ''__proto__'' then Some v else map_of obj k')"
  by (simp add: setProperty_def update_conv')

text \<open>
  A non-blank cell of an unknown column is kept verbatim under its header text, provided
  that no later column with the same header text has a non-blank cell and the header text is
  not \<open>__proto__\<close>: among columns that share a header text the last non-blank cell
  is the one kept.
\<close>

lemma unknownFields_retained:
  assumes "idx < length headers" and "headers ! idx = h" and "h \<in> set unknown"
    and "h \<noteq> u16 ''__proto__''"
    and "js_trim (js_String (cellAt r idx)) \<noteq> []"
    and "\<forall>j. idx < j \<and> j < length headers \<and> headers ! j = h \<longrightarrow>
           js_trim (js_String (cellAt r j)) = []"
  shows "map_of (unknownFields headers unknown r) h = Some (cellAt r idx)"
  using assms
proof (induction headers rule: rev_induct)
  case Nil
  then show ?case by simp
next
  case (snoc x hs)
  show ?case
  proof (cases "idx = length hs")
    case True
    with snoc.prems show ?thesis
      by (simp add: unknownFields_snoc map_of_setProperty)
  next
    case False
    with snoc.prems(1) have lt: "idx < length hs" by simp
    have later: "\<forall>j. idx < j \<and> j < length hs \<and> hs ! j = h \<longrightarrow>
           js_trim (js_String (cellAt r j)) = []"
      using snoc.prems(6) by (auto simp: nth_append)
    have IH: "map_of (unknownFields hs unknown r) h = Some (cellAt r idx)"
      using snoc.IH lt snoc.prems(2,3,4,5) later by (simp add: nth_append)
    have "x = h \<longrightarrow> js_trim (js_String (cellAt r (length hs))) = []"
      using snoc.prems(6) lt by (auto simp: nth_append)
    with IH show ?thesis
      by (auto simp: unknownFields_snoc map_of_setProperty)
  qed
qed

section \<open>The theorems on the sample sheets\<close>

lemmas norm_eval = normalizeHeader_def js_trim_def isWhiteSpace_def

lemma hm_map_A: "hm_map (buildHeaderMap (map js_String headersA)) = mapA"
proof -
  have "map normalizeHeader (map js_String headersA) =
        [[25818, 40670], [32080, 24115, 21934, 34399], [38917, 30446, 73, 68],
         [26009, 34399], [25976, 37327], [20633, 35387]]"
    by (simp add: headersA_def norm_eval)
  then show ?thesis
    unfolding hm_map_concat
    by (simp add: headerAliases_def entryOf_def findIndex_def mapA_def)
qed

lemma hm_unknown_A: "hm_unknown (buildHeaderMap (map js_String headersA)) = [[20633, 35387]]"
  unfolding hm_unknown_eq
  by (simp add: headersA_def headerAliases_def norm_eval)


lemmas num_eval = js_Number_def js_trim_def isWhiteSpace_def nonDecimalIntegerLiteral_def
  strDecimalLiteral_def strUnsignedDecimalLiteral_def exponentPart_def scale10_def
  digitsValue_def digitVal_def isDigit_def u16_def Let_def

lemmas row_eval = knownFields_def mapA_def cellAt_def js_trim_def isWhiteSpace_def u16_def
  digitsOfNat.simps

lemma raw_rowValid:
  "knownFields mapA rowValid =
     [(''branchCode'', u16 ''A01''), (''checkoutNo'', u16 ''C100''), (''itemId'', u16 ''1''),
      (''partNo'', u16 ''P-9''), (''qty'', u16 ''5'')]"
  by (simp add: rowValid_def row_eval)

lemma raw_rowAbc:
  "knownFields mapA rowAbc =
     [(''branchCode'', u16 ''A01''), (''checkoutNo'', u16 ''C100''), (''itemId'', u16 ''2''),
      (''partNo'', u16 ''P-9''), (''qty'', u16 ''abc'')]"
  by (simp add: rowAbc_def row_eval)

lemma raw_rowNoQty:
  "knownFields mapA rowNoQty =
     [(''branchCode'', u16 ''A01''), (''checkoutNo'', u16 ''C101''), (''itemId'', u16 ''1''),
      (''partNo'', u16 ''P-7''), (''qty'', [])]"
  by (simp add: rowNoQty_def row_eval)

lemmas parse_eval = CanonicalRowSchema_safeParse_def z_string_min1_def z_string_optional_def
  z_coerce_number_optional_def

lemma parse_rowValid:
  "CanonicalRowSchema_safeParse (knownFields mapA rowValid) =
     Some \<lparr>d_branchCode = u16 ''A01'', d_checkoutNo = u16 ''C100'', d_itemId = u16 ''1'',
           d_partNo = u16 ''P-9'', d_workOrderNo = None, d_partName = None,
           d_qty = Some (Finite 5), d_saleAmount = None, d_costAmount = None,
           d_advisorName = None, d_salesName = None\<rparr>"
  unfolding raw_rowValid by (simp add: parse_eval num_eval)

lemma parse_rowAbc: "CanonicalRowSchema_safeParse (knownFields mapA rowAbc) = None"
  unfolding raw_rowAbc by (simp add: parse_eval num_eval)

lemma parse_rowNoQty:
  "CanonicalRowSchema_safeParse (knownFields mapA rowNoQty) =
     Some \<lparr>d_branchCode = u16 ''A01'', d_checkoutNo = u16 ''C101'', d_itemId = u16 ''1'',
           d_partNo = u16 ''P-7'', d_workOrderNo = None, d_partName = None,
           d_qty = Some (Finite 0), d_saleAmount = None, d_costAmount = None,
           d_advisorName = None, d_salesName = None\<rparr>"
  unfolding raw_rowNoQty by (simp add: parse_eval num_eval)

lemma nonblank_rows:
  "\<not> list_all (\<lambda>v. js_trim (js_String v) = []) rowValid"
  "\<not> list_all (\<lambda>v. js_trim (js_String v) = []) rowAbc"
  "\<not> list_all (\<lambda>v. js_trim (js_String v) = []) rowNoQty"
  "list_all (\<lambda>v. js_trim (js_String v) = []) rowBlank"
  by (simp_all add: rowValid_def rowAbc_def rowNoQty_def rowBlank_def js_trim_def isWhiteSpace_def u16_def)


lemma missing_A: "missingRequiredOf mapA = []"
  by (simp add: missingRequiredOf_def requiredKeys_def mapA_def)

lemma loopOf_A_counts:
  "stagedCount (loopOf h d fn headersA (tl sheetA)) = 3"
  "canonicalCount (loopOf h d fn headersA (tl sheetA)) = 2"
  "errorCount (loopOf h d fn headersA (tl sheetA)) = 1"
  unfolding loopOf_def Let_def hm_map_A hm_unknown_A missing_A
  by (simp_all add: sheetA_def loopBody_def Let_def nonblank_rows parse_rowValid parse_rowAbc
      parse_rowNoQty)

lemma import_A:
  "\<exists>d'. importPartsSalesXlsx h d fn sheetA =
     (d', Inr \<lparr>res_batchId = freshId (importBatches d), res_stagedCount = 3,
               res_canonicalCount = 2, res_errorCount = 1, res_missingRequired = [],
               res_unknownColumns = [[20633, 35387]]\<rparr>)"
proof -
  have "2 \<le> length sheetA" and "hd sheetA = Some headersA"
    by (simp_all add: sheetA_def)
  from import_completed [OF this, of h d fn] show ?thesis
    by (simp add: Let_def loopOf_A_counts hm_map_A hm_unknown_A missing_A)
qed


lemma hm_map_B:
  "hm_map (buildHeaderMap (map js_String headersB)) =
     [(''branchCode'', 0), (''checkoutNo'', 1), (''partNo'', 2), (''qty'', 3)]"
proof -
  have "map normalizeHeader (map js_String headersB) =
        [[25818, 40670], [32080, 24115, 21934, 34399], [26009, 34399], [25976, 37327]]"
    by (simp add: headersB_def norm_eval)
  then show ?thesis
    unfolding hm_map_concat
    by (simp add: headerAliases_def entryOf_def findIndex_def)
qed

theorem C1_missing_required_header_witness:
  "2 \<le> length sheetB \<and> hd sheetB = Some headersB \<and> ''itemId'' \<in> set requiredKeys \<and>
   map_of (hm_map (buildHeaderMap (map js_String headersB))) ''itemId'' = None \<and>
   (\<exists>d' res. importPartsSalesXlsx (\<lambda>s. s) emptyDb None sheetB = (d', Inr res) \<and>
      res_canonicalCount res = 0 \<and> res_errorCount res = 1 \<and> res_stagedCount res = 1 \<and>
      length (stagingRows d') = 1 \<and> partsSalesLines d' = [])"
proof -
  have h1: "2 \<le> length sheetB" and h2: "hd sheetB = Some headersB"
    by (simp_all add: sheetB_def)
  have h3: "''itemId'' \<in> set requiredKeys"
    by (simp add: requiredKeys_def)
  have h4: "map_of (hm_map (buildHeaderMap (map js_String headersB))) ''itemId'' = None"
    by (simp add: hm_map_B)
  have n: "length (filter (\<lambda>r. \<not> blankRow r) (tl sheetB)) = 1"
    by (simp add: sheetB_def blankRow_def js_trim_def isWhiteSpace_def u16_def)
  from C1_missing_required_header [OF h1 h2 h3 h4, of "\<lambda>s. s" emptyDb None]
  show ?thesis
    using h1 h2 h3 h4 by (auto simp: n emptyDb_def)
qed

theorem C3_only_hard_failure_witness:
  "importPartsSalesXlsx (\<lambda>s. s) emptyDb None [Some headersA] = (emptyDb, Inl NoDataRows) \<and>
   importPartsSalesXlsx (\<lambda>s. s) emptyDb None [] = (emptyDb, Inl NoDataRows) \<and>
   importPartsSalesXlsx (\<lambda>s. s) emptyDb None [None, Some rowValid] = (emptyDb, Inl TypeError) \<and>
   (\<exists>d' res. importPartsSalesXlsx (\<lambda>s. s) emptyDb None sheetA = (d', Inr res))"
  using C3_only_hard_failure [of "[Some headersA]" "\<lambda>s. s" emptyDb None]
    C3_only_hard_failure [of "[]" "\<lambda>s. s" emptyDb None]
    C3_only_hard_failure [of "[None, Some rowValid]" "\<lambda>s. s" emptyDb None]
    C3_only_hard_failure [of sheetA "\<lambda>s. s" emptyDb None]
  by (simp add: sheetA_def)

theorem C4_signature_order_independent_witness:
  "mset [[25976, 37327], [25818, 40670], [26009, 34399]] =
   mset [[25818, 40670], [26009, 34399], [25976, 37327]] \<and>
   headerSignature (\<lambda>s. s) (hm_normHeaders (buildHeaderMap
      [[25976, 37327], [25818, 40670], [26009, 34399]])) =
   headerSignature (\<lambda>s. s) (hm_normHeaders (buildHeaderMap
      [[25818, 40670], [26009, 34399], [25976, 37327]]))"
proof -
  have h: "mset [[25976, 37327], [25818, 40670], [26009, 34399]] =
           mset [[25818, 40670], [26009, 34399], [25976 :: nat, 37327]]"
    by simp
  from h C4_signature_order_independent [OF h, of "\<lambda>s. s"] show ?thesis by simp
qed

theorem C5_non_numeric_amount_witness:
  "\<not> list_all (\<lambda>v. js_trim (js_String v) = []) rowAbc \<and>
   map_of (knownFields mapA rowAbc) ''qty'' = Some (u16 ''abc'') \<and>
   js_Number (u16 ''abc'') = NaN \<and>
   map_of (knownFields mapA rowAbc) ''branchCode'' = Some (u16 ''A01'') \<and>
   map_of (knownFields mapA rowAbc) ''checkoutNo'' = Some (u16 ''C100'') \<and>
   map_of (knownFields mapA rowAbc) ''itemId'' = Some (u16 ''2'') \<and>
   map_of (knownFields mapA rowAbc) ''partNo'' = Some (u16 ''P-9'') \<and>
   stagedCount (loopBody (map js_String headersA) mapA [[20633, 35387]] [] 1 3 (Some rowAbc) st0) = 1 \<and>
   errorCount (loopBody (map js_String headersA) mapA [[20633, 35387]] [] 1 3 (Some rowAbc) st0) = 1 \<and>
   canonicalCount (loopBody (map js_String headersA) mapA [[20633, 35387]] [] 1 3 (Some rowAbc) st0) = 0 \<and>
   partsSalesLines (ls_db (loopBody (map js_String headersA) mapA [[20633, 35387]] [] 1 3
      (Some rowAbc) st0)) = [] \<and>
   length (stagingRows (ls_db (loopBody (map js_String headersA) mapA [[20633, 35387]] [] 1 3
      (Some rowAbc) st0))) = 1"
proof -
  have h1: "\<not> list_all (\<lambda>v. js_trim (js_String v) = []) rowAbc"
    by (rule nonblank_rows)
  have h2: "''qty'' \<in> {''qty'', ''saleAmount'', ''costAmount''}" by simp
  have h3: "map_of (knownFields mapA rowAbc) ''qty'' = Some (u16 ''abc'')"
    by (simp add: raw_rowAbc)
  have h4: "js_Number (u16 ''abc'') = NaN"
    by (simp add: num_eval)
  from C5_non_numeric_amount [OF h1 h2 h3 h4, of "map js_String headersA" "[[20633, 35387]]" "[]" 1 3 st0]
  show ?thesis
    using h1 h3 h4 by (simp add: raw_rowAbc st0_def emptyDb_def)
qed

theorem C6_final_status_and_counters_witness:
  "\<exists>d' res. importPartsSalesXlsx (\<lambda>s. s) emptyDb None sheetA = (d', Inr res) \<and>
     res_errorCount res = 1 \<and>
     (\<exists>b. importBatches d' = [b] \<and> ib_id b = res_batchId res \<and> ib_status b = STAGED \<and>
        ib_errorCount b = Some 1 \<and> ib_stagedCount b = Some 3 \<and> ib_canonicalCount b = Some 2)"
proof -
  from import_A [of "\<lambda>s. s" emptyDb None] obtain d' where
    imp: "importPartsSalesXlsx (\<lambda>s. s) emptyDb None sheetA =
      (d', Inr \<lparr>res_batchId = freshId (importBatches emptyDb), res_stagedCount = 3,
               res_canonicalCount = 2, res_errorCount = 1, res_missingRequired = [],
               res_unknownColumns = [[20633, 35387]]\<rparr>)" by blast
  from C6_final_status_and_counters [OF imp] imp show ?thesis
    by (auto simp: emptyDb_def)
qed

theorem C9_staged_is_canonical_plus_error_witness:
  "\<exists>d' res. importPartsSalesXlsx (\<lambda>s. s) emptyDb None sheetA = (d', Inr res) \<and>
     res_canonicalCount res = 2 \<and> res_errorCount res = 1 \<and>
     res_stagedCount res = res_canonicalCount res + res_errorCount res"
proof -
  from import_A [of "\<lambda>s. s" emptyDb None] obtain d' where
    imp: "importPartsSalesXlsx (\<lambda>s. s) emptyDb None sheetA =
      (d', Inr \<lparr>res_batchId = freshId (importBatches emptyDb), res_stagedCount = 3,
               res_canonicalCount = 2, res_errorCount = 1, res_missingRequired = [],
               res_unknownColumns = [[20633, 35387]]\<rparr>)" by blast
  from C9_staged_is_canonical_plus_error [OF imp] imp show ?thesis
    by auto
qed

theorem C8_blank_row_skipped_witness:
  "list_all (\<lambda>v. js_trim (js_String v) = []) rowBlank \<and>
   loopBody (map js_String headersA) mapA [[20633, 35387]] [] 1 2 (Some rowBlank) st0 = st0 \<and>
   (\<exists>d' res. importPartsSalesXlsx (\<lambda>s. s) emptyDb None sheetA = (d', Inr res) \<and>
      sheetA ! 2 = Some rowBlank \<and>
      (\<exists>news. stagingRows d' = stagingRows emptyDb @ news \<and> 2 \<notin> sr_rowIndex ` set news) \<and>
      res_stagedCount res = 3)"
proof -
  have b: "list_all (\<lambda>v. js_trim (js_String v) = []) rowBlank"
    by (rule nonblank_rows)
  then have h: "Some rowBlank = None \<or>
      (\<exists>cells. Some rowBlank = Some cells \<and> (\<forall>v \<in> set cells. js_trim (js_String v) = []))"
    by (simp add: list_all_iff)
  from import_A [of "\<lambda>s. s" emptyDb None] obtain d' res where
    imp: "importPartsSalesXlsx (\<lambda>s. s) emptyDb None sheetA = (d', Inr res)" by blast
  have i: "(1::nat) \<le> 2" "2 < length sheetA" "sheetA ! 2 = Some rowBlank"
    by (simp_all add: sheetA_def)
  have n: "length (filter (\<lambda>r. \<not> blankRow r) (tl sheetA)) = 3"
    by (simp add: sheetA_def blankRow_def nonblank_rows)
  from C8_blank_row_skipped [OF h, of "map js_String headersA" mapA "[[20633, 35387]]" "[]" 1 2 st0
      "\<lambda>s. s" emptyDb None sheetA d' res]
  show ?thesis
    using b imp i n by auto
qed

lemma raw_rowSpaceQty:
  "knownFields mapA rowSpaceQty =
     [(''branchCode'', u16 ''A01''), (''checkoutNo'', u16 ''C102''), (''itemId'', u16 ''1''),
      (''partNo'', u16 ''P-7''), (''qty'', [])]"
  by (simp add: rowSpaceQty_def row_eval)

lemma parse_rowSpaceQty:
  "CanonicalRowSchema_safeParse (knownFields mapA rowSpaceQty) =
     Some \<lparr>d_branchCode = u16 ''A01'', d_checkoutNo = u16 ''C102'', d_itemId = u16 ''1'',
           d_partNo = u16 ''P-7'', d_workOrderNo = None, d_partName = None,
           d_qty = Some (Finite 0), d_saleAmount = None, d_costAmount = None,
           d_advisorName = None, d_salesName = None\<rparr>"
  unfolding raw_rowSpaceQty by (simp add: parse_eval num_eval)

lemma nonblank_rowSpaceQty: "\<not> list_all (\<lambda>v. js_trim (js_String v) = []) rowSpaceQty"
  by (simp add: rowSpaceQty_def js_trim_def isWhiteSpace_def u16_def)

text \<open>
  The theorem at a row whose quantity cell is a space, an ideographic space and a tab, and
  at a row whose quantity cell is empty.
\<close>

theorem C10_blank_numeric_cell_is_zero_witness:
  "\<not> list_all (\<lambda>v. js_trim (js_String v) = []) rowSpaceQty \<and>
   map_of mapA ''qty'' = Some 4 \<and>
   cellAt rowSpaceQty 4 = Str [32, 12288, 9] \<and>
   list_all isWhiteSpace (js_String (cellAt rowSpaceQty 4)) \<and>
   map_of (knownFields mapA rowSpaceQty) ''qty'' = Some [] \<and>
   (\<exists>d. CanonicalRowSchema_safeParse (knownFields mapA rowSpaceQty) = Some d \<and>
      d_qty d = Some (Finite 0) \<and>
      canonicalCount (loopBody (map js_String headersA) mapA [[20633, 35387]] [] 1 4
         (Some rowSpaceQty) st0) = 1 \<and>
      errorCount (loopBody (map js_String headersA) mapA [[20633, 35387]] [] 1 4
         (Some rowSpaceQty) st0) = 0 \<and>
      (\<exists>l \<in> set (partsSalesLines (ls_db (loopBody (map js_String headersA) mapA
           [[20633, 35387]] [] 1 4 (Some rowSpaceQty) st0))).
         sameKey d l \<and> psl_qty l = Some (Finite 0))) \<and>
   cellAt rowNoQty 4 = Str [] \<and>
   map_of (knownFields mapA rowNoQty) ''qty'' = Some [] \<and>
   (\<exists>d. CanonicalRowSchema_safeParse (knownFields mapA rowNoQty) = Some d \<and>
      d_qty d = Some (Finite 0) \<and>
      canonicalCount (loopBody (map js_String headersA) mapA [[20633, 35387]] [] 1 4
         (Some rowNoQty) st0) = 1 \<and>
      (\<exists>l \<in> set (partsSalesLines (ls_db (loopBody (map js_String headersA) mapA
           [[20633, 35387]] [] 1 4 (Some rowNoQty) st0))).
         sameKey d l \<and> psl_qty l = Some (Finite 0)))"
proof -
  let ?d = "\<lparr>d_branchCode = u16 ''A01'', d_checkoutNo = u16 ''C102'', d_itemId = u16 ''1'',
           d_partNo = u16 ''P-7'', d_workOrderNo = None, d_partName = None,
           d_qty = Some (Finite 0), d_saleAmount = None, d_costAmount = None,
           d_advisorName = None, d_salesName = None\<rparr>"
  let ?e = "\<lparr>d_branchCode = u16 ''A01'', d_checkoutNo = u16 ''C101'', d_itemId = u16 ''1'',
           d_partNo = u16 ''P-7'', d_workOrderNo = None, d_partName = None,
           d_qty = Some (Finite 0), d_saleAmount = None, d_costAmount = None,
           d_advisorName = None, d_salesName = None\<rparr>"
  have h2: "(''qty'', d_qty, psl_qty) \<in> {(''qty'', d_qty, psl_qty),
                                 (''saleAmount'', d_saleAmount, psl_saleAmount),
                                 (''costAmount'', d_costAmount, psl_costAmount)}"
    by simp
  have h3: "map_of mapA ''qty'' = Some 4"
    by (simp add: mapA_def)
  have s1: "\<not> list_all (\<lambda>v. js_trim (js_String v) = []) rowSpaceQty"
    by (rule nonblank_rowSpaceQty)
  have sc: "cellAt rowSpaceQty 4 = Str [32, 12288, 9]"
    by (simp add: cellAt_def rowSpaceQty_def)
  have s4: "list_all isWhiteSpace (js_String (cellAt rowSpaceQty 4))"
    by (simp add: sc isWhiteSpace_def)
  have s5: "CanonicalRowSchema_safeParse (knownFields mapA rowSpaceQty) = Some ?d"
    by (rule parse_rowSpaceQty)
  have n1: "\<not> list_all (\<lambda>v. js_trim (js_String v) = []) rowNoQty"
    by (rule nonblank_rows)
  have nc: "cellAt rowNoQty 4 = Str []"
    by (simp add: cellAt_def rowNoQty_def)
  have n4: "list_all isWhiteSpace (js_String (cellAt rowNoQty 4))"
    by (simp add: nc)
  have n5: "CanonicalRowSchema_safeParse (knownFields mapA rowNoQty) = Some ?e"
    by (rule parse_rowNoQty)
  have space: "map_of (knownFields mapA rowSpaceQty) ''qty'' = Some [] \<and>
      (\<exists>d. CanonicalRowSchema_safeParse (knownFields mapA rowSpaceQty) = Some d \<and>
         d_qty d = Some (Finite 0) \<and>
         canonicalCount (loopBody (map js_String headersA) mapA [[20633, 35387]] [] 1 4
            (Some rowSpaceQty) st0) = 1 \<and>
         errorCount (loopBody (map js_String headersA) mapA [[20633, 35387]] [] 1 4
            (Some rowSpaceQty) st0) = 0 \<and>
         (\<exists>l \<in> set (partsSalesLines (ls_db (loopBody (map js_String headersA) mapA
              [[20633, 35387]] [] 1 4 (Some rowSpaceQty) st0))).
            sameKey d l \<and> psl_qty l = Some (Finite 0)))"
    using C10_blank_numeric_cell_is_zero [OF s1 h2 h3 s4 s5, of "map js_String headersA"
        "[[20633, 35387]]" 1 4 st0] s5
    by (auto simp: st0_def)
  have empty: "map_of (knownFields mapA rowNoQty) ''qty'' = Some [] \<and>
      (\<exists>d. CanonicalRowSchema_safeParse (knownFields mapA rowNoQty) = Some d \<and>
         d_qty d = Some (Finite 0) \<and>
         canonicalCount (loopBody (map js_String headersA) mapA [[20633, 35387]] [] 1 4
            (Some rowNoQty) st0) = 1 \<and>
         (\<exists>l \<in> set (partsSalesLines (ls_db (loopBody (map js_String headersA) mapA
              [[20633, 35387]] [] 1 4 (Some rowNoQty) st0))).
            sameKey d l \<and> psl_qty l = Some (Finite 0)))"
    using C10_blank_numeric_cell_is_zero [OF n1 h2 h3 n4 n5, of "map js_String headersA"
        "[[20633, 35387]]" 1 4 st0] n5
    by (auto simp: st0_def)
  from s1 h3 sc s4 space nc empty show ?thesis by blast
qed

lemma hm_map_C:
  "hm_map (buildHeaderMap (map js_String headersC)) =
     [(''branchCode'', 0), (''checkoutNo'', 1), (''itemId'', 2), (''partNo'', 3)]"
proof -
  have "map normalizeHeader (map js_String headersC) =
        [[25818, 40670], [32080, 24115, 21934, 34399], [38917, 30446, 73, 68],
         [26009, 34399], [20633, 35387], [20633, 35387]]"
    by (simp add: headersC_def norm_eval)
  then show ?thesis
    unfolding hm_map_concat
    by (simp add: headerAliases_def entryOf_def findIndex_def)
qed

lemma hm_unknown_C:
  "hm_unknown (buildHeaderMap (map js_String headersC)) = [[20633, 35387], [20633, 35387]]"
  unfolding hm_unknown_eq
  by (simp add: headersC_def headerAliases_def norm_eval)

lemma unknownFields_C:
  "unknownFields (map js_String headersC) [[20633, 35387], [20633, 35387]] rowC =
     [([20633, 35387], Str (u16 ''y''))]"
  by (simp add: unknownFields_def headersC_def rowC_def cellAt_def setProperty_def u16_def
      js_trim_def isWhiteSpace_def upt_rec)

text \<open>
  C2, on the sheet with two remark columns of the same header text whose cells are
  \<open>x\<close> and \<open>y\<close>: both columns are classified unknown and both cells are
  non-blank, yet the staging row written by the import keeps only \<open>y\<close> under the
  remark header; the cell \<open>x\<close> is in no staging row.
\<close>

theorem C2_duplicate_unknown_header_overwritten:
  "hm_unknown (buildHeaderMap (map js_String headersC)) = [[20633, 35387], [20633, 35387]] \<and>
   js_trim (js_String (cellAt rowC 4)) = u16 ''x'' \<and>
   js_trim (js_String (cellAt rowC 5)) = u16 ''y'' \<and>
   map sr_unknown (stagingRows (fst (importPartsSalesXlsx (\<lambda>s. s) emptyDb None sheetC))) =
     [Some [([20633, 35387], Str (u16 ''y''))]]"
proof -
  have r: "2 \<le> length sheetC" "hd sheetC = Some headersC"
    by (simp_all add: sheetC_def)
  have nb: "\<not> list_all (\<lambda>v. js_trim (js_String v) = []) rowC"
    by (simp add: rowC_def js_trim_def isWhiteSpace_def u16_def)
  have "map sr_unknown (stagingRows (ls_db (loopOf (\<lambda>s. s) emptyDb None headersC (tl sheetC)))) =
     [Some [([20633, 35387], Str (u16 ''y''))]]"
    unfolding loopOf_def Let_def hm_map_C hm_unknown_C
    by (simp add: sheetC_def loopBody_def Let_def nb unknownFields_C prisma_stagingRow_create_def
        prisma_partsSalesLine_upsert_def prisma_importBatch_create_def emptyDb_def
        split: option.splits)
  moreover have "js_trim (js_String (cellAt rowC 4)) = u16 ''x''"
    and "js_trim (js_String (cellAt rowC 5)) = u16 ''y''"
    by (simp_all add: cellAt_def rowC_def js_trim_def isWhiteSpace_def u16_def)
  ultimately show ?thesis
    unfolding import_completed [OF r] Let_def
    by (simp add: hm_unknown_C prisma_importBatch_update_def)
qed

end
